theory Spec2Isabelle
  imports Main
begin

section \<open>JavaScript values and property lookup\<close>

text \<open>
  The values a parsed JSON document can hold, with \<open>JUndefined\<close> for a field that is not
  there. Numbers are taken as integers: the code only asks whether a number is zero.
  An object keeps its fields as a list of pairs, each key once.
\<close>

datatype jsval =
    JUndefined
  | JNull
  | JBool bool
  | JNum int
  | JStr string
  | JArr "jsval list"
  | JObj "(string \<times> jsval) list"

text \<open>What \<open>if (v)\<close> and \<open>!v\<close> see.\<close>

fun truthy :: "jsval \<Rightarrow> bool" where
  "truthy JUndefined = False"
| "truthy JNull = False"
| "truthy (JBool b) = b"
| "truthy (JNum n) = (n \<noteq> 0)"
| "truthy (JStr s) = (s \<noteq> [])"
| "truthy (JArr xs) = True"
| "truthy (JObj kvs) = True"

text \<open>\<open>!s\<close> for a field that is a string when present.\<close>

fun falsy_str :: "string option \<Rightarrow> bool" where
  "falsy_str None = True"
| "falsy_str (Some s) = (s = [])"

text \<open>
  The tables of the provider and the body of a request are plain objects, so
  \<open>object[key]\<close> finds the object's own entries and, for a key that is none of them, what
  \<open>Object.prototype\<close> holds under the key. That is a member every object inherits (each a
  function, or for \<open>__proto__\<close> the prototype object itself: never a falsy value), or one
  of the four fields the handler writes when the object it takes for a flag is
  \<open>Object.prototype\<close>.
\<close>

definition objectPrototypeMembers :: "string list" where
  "objectPrototypeMembers =
     [''constructor'', ''__proto__'', ''hasOwnProperty'', ''isPrototypeOf'',
      ''propertyIsEnumerable'', ''toLocaleString'', ''toString'', ''valueOf'',
      ''__defineGetter__'', ''__defineSetter__'', ''__lookupGetter__'', ''__lookupSetter__'']"

definition stampedFields :: "string list" where
  "stampedFields = [''enabled'', ''updated_at'', ''updated_by'', ''update_reason'']"

text \<open>
  A string that is none of these names. The tenant identifiers of the API-key table are
  such strings (\<open>customer_001\<close>, \<open>customer_002\<close>), and so are the strings the handler
  writes into a flag: what \<open>new Date().toISOString()\<close> returns, \<open>pathcanary\<close>, and a text
  that starts with \<open>Incident\<close>.
\<close>

typedef plain = "{s :: string. s \<notin> set objectPrototypeMembers \<and> s \<notin> set stampedFields}"
  morphisms plain_text Plain
  by (rule exI [of _ "[]"]) (simp add: objectPrototypeMembers_def stampedFields_def)

text \<open>
  What the toggle writes onto the object it takes for the flag: \<open>enabled\<close>, \<open>updated_at\<close>,
  \<open>updated_by\<close> (always \<open>pathcanary\<close>) and \<open>update_reason\<close> (made of the incident's id and
  message).
\<close>

record stamp =
  st_enabled :: bool
  st_updated_at :: plain
  st_incident_id :: string
  st_incident_message :: string

definition update_reason :: "string \<Rightarrow> string \<Rightarrow> string" where
  "update_reason incident_id incident_message =
     ''Incident '' @ incident_id @ '': '' @ incident_message"

text \<open>A value read out of such a stamp: a boolean, or a string that is none of the names.\<close>

datatype stampval = SBool bool | SStr plain

fun truthy_stampval :: "stampval \<Rightarrow> bool" where
  "truthy_stampval (SBool b) = b"
| "truthy_stampval (SStr p) = (plain_text p \<noteq> [])"

definition stamp_field :: "stamp \<Rightarrow> string \<Rightarrow> stampval option" where
  "stamp_field st k =
     (if k = ''enabled'' then Some (SBool (st_enabled st))
      else if k = ''updated_at'' then Some (SStr (st_updated_at st))
      else if k = ''updated_by'' then Some (SStr (Plain ''pathcanary''))
      else if k = ''update_reason''
      then Some (SStr (Plain (update_reason (st_incident_id st) (st_incident_message st))))
      else None)"

text \<open>The stamp as \<open>JSON.stringify\<close> prints the object that carries it.\<close>

fun stamp_json :: "stamp option \<Rightarrow> (string \<times> jsval) list" where
  "stamp_json None = []"
| "stamp_json (Some st) =
     [(''enabled'', JBool (st_enabled st)),
      (''updated_at'', JStr (plain_text (st_updated_at st))),
      (''updated_by'', JStr ''pathcanary''),
      (''update_reason'', JStr (update_reason (st_incident_id st) (st_incident_message st)))]"

text \<open>
  The built-in objects the handler can reach are \<open>Object.prototype\<close> and the functions it
  holds, each named here by the member it is found under (\<open>__proto__\<close> for
  \<open>Object.prototype\<close> itself). Their state is the stamp written onto them, if any.
  \<open>getProp\<close> is \<open>object[key]\<close> for a plain object with the own entries \<open>obj\<close>.
\<close>

type_synonym builtins = "string \<rightharpoonup> stamp"

datatype 'a lookup = Own 'a | Stamped stampval | Inherited string | Absent

definition getProp :: "builtins \<Rightarrow> (string \<rightharpoonup> 'a) \<Rightarrow> string \<Rightarrow> 'a lookup" where
  "getProp bs obj k =
     (case obj k of
        Some v \<Rightarrow> Own v
      | None \<Rightarrow>
          if k \<in> set objectPrototypeMembers then Inherited k
          else case bs ''__proto__'' of
                 None \<Rightarrow> Absent
               | Some st \<Rightarrow> (case stamp_field st k of Some v \<Rightarrow> Stamped v | None \<Rightarrow> Absent))"

text \<open>
  Who a request runs as: \<open>req.customer.id\<close>, which is whatever \<open>database.apiKeys[apiKey]\<close>
  gave. It is a string (the tenant stored under the API key, or a string stamped onto
  \<open>Object.prototype\<close>), the built-in object found when the presented key names an
  inherited member, or the boolean \<open>true\<close> stamped as \<open>enabled\<close>.
\<close>

datatype ident = Tenant plain | Builtin string | Truth

text \<open>
  The identity used as a property key or inside a template string: a string is itself,
  \<open>Object.prototype\<close> prints as \<open>[object Object]\<close> and a built-in function as its
  native-code source text (\<open>constructor\<close> is the function \<open>Object\<close>).
\<close>

definition identString :: "ident \<Rightarrow> string" where
  "identString c =
     (case c of
        Tenant s \<Rightarrow> plain_text s
      | Builtin m \<Rightarrow>
          if m = ''__proto__'' then ''[object Object]''
          else ''function '' @ (if m = ''constructor'' then ''Object'' else m)
                 @ ''() { [native code] }''
      | Truth \<Rightarrow> ''true'')"

text \<open>
  The \<open>customer_id\<close> field as \<open>JSON.stringify\<close> renders it: a function-valued field is
  left out, and \<open>Object.prototype\<close> is printed with the fields stamped onto it.
\<close>

definition identJson :: "builtins \<Rightarrow> ident \<Rightarrow> (string \<times> jsval) list" where
  "identJson bs c =
     (case c of
        Tenant s \<Rightarrow> [(''customer_id'', JStr (plain_text s))]
      | Builtin m \<Rightarrow>
          if m = ''__proto__'' then [(''customer_id'', JObj (stamp_json (bs ''__proto__'')))]
          else []
      | Truth \<Rightarrow> [(''customer_id'', JBool True)])"

section \<open>The in-memory database\<close>

record flag =
  fl_id :: string
  fl_key :: string
  fl_enabled :: bool
  fl_environment :: string
  fl_description :: string
  fl_created_at :: string
  fl_updated_at :: string
  fl_updated_by :: "string option"
  fl_update_reason :: "string option"

text \<open>
  What a tenant's table holds under a key: a flag record, or what the handler's
  \<open>customerFlags[flag_key] = flag\<close> stored there when the flag it had found was no record:
  a built-in object, or a value stamped onto \<open>Object.prototype\<close>.
\<close>

datatype entry = Flag flag | BuiltinRef string | Prim stampval

datatype action = FLAG_TOGGLED | FLAG_NOT_FOUND | AUTH_FAILED | WEBHOOK_ERROR

text \<open>
  The events handed to \<open>logAuditEvent\<close>, one constructor for each object literal of the
  source, with the fields in the source's order. A field that may be \<open>undefined\<close> is an
  option.
\<close>

datatype event =
    AuthFailedEvent string "string" "string option"
      \<comment> \<open>api_key (shortened), ip, user_agent\<close>
  | FlagNotFoundEvent ident string string string
      \<comment> \<open>customer_id, flag_key, incident_id, request_id\<close>
  | FlagToggledEvent ident string "string option" "bool option" bool string string string jsval
      \<comment> \<open>customer_id, flag_key, flag_id, previous_state, new_state, incident_id,
          incident_message, request_id, metadata\<close>
  | WebhookErrorEvent ident string string string int
      \<comment> \<open>customer_id, error, stack, request_id, duration_ms\<close>

fun event_action :: "event \<Rightarrow> action" where
  "event_action (AuthFailedEvent k i u) = AUTH_FAILED"
| "event_action (FlagNotFoundEvent c k i r) = FLAG_NOT_FOUND"
| "event_action (FlagToggledEvent c k f p n i m r md) = FLAG_TOGGLED"
| "event_action (WebhookErrorEvent c e s r d) = WEBHOOK_ERROR"

record logEntry =
  timestamp :: string
  logged :: event

text \<open>
  The state of the server: the three tables of \<open>database\<close>, and the built-in objects,
  which the handler can write and every read of a table or of a body goes through.
\<close>

record database =
  apiKeys :: "string \<rightharpoonup> plain"
  featureFlags :: "string \<rightharpoonup> (string \<rightharpoonup> entry)"
  auditLog :: "logEntry list"
  builtins :: builtins

text \<open>The database the server starts with; nothing is written on a built-in object yet.\<close>

definition initial_database :: database where
  "initial_database =
     \<lparr> apiKeys = [''test_sk_abc123def456'' \<mapsto> Plain ''customer_001'',
                   ''prod_sk_xyz789ghi012'' \<mapsto> Plain ''customer_002''],
       featureFlags =
         [''customer_001'' \<mapsto>
            [''new-checkout-flow'' \<mapsto> Flag
               \<lparr> fl_id = ''flag_001'', fl_key = ''new-checkout-flow'', fl_enabled = True,
                 fl_environment = ''production'', fl_description = ''New checkout experience'',
                 fl_created_at = ''2025-01-15T10:00:00Z'', fl_updated_at = ''2025-01-15T10:00:00Z'',
                 fl_updated_by = None, fl_update_reason = None \<rparr>,
             ''beta-search'' \<mapsto> Flag
               \<lparr> fl_id = ''flag_002'', fl_key = ''beta-search'', fl_enabled = True,
                 fl_environment = ''production'', fl_description = ''Beta search algorithm'',
                 fl_created_at = ''2025-02-01T12:00:00Z'', fl_updated_at = ''2025-02-01T12:00:00Z'',
                 fl_updated_by = None, fl_update_reason = None \<rparr>],
          ''customer_002'' \<mapsto>
            [''mobile-app-redesign'' \<mapsto> Flag
               \<lparr> fl_id = ''flag_003'', fl_key = ''mobile-app-redesign'', fl_enabled = False,
                 fl_environment = ''production'', fl_description = ''Mobile app UI redesign'',
                 fl_created_at = ''2025-03-10T08:00:00Z'', fl_updated_at = ''2025-03-10T08:00:00Z'',
                 fl_updated_by = None, fl_update_reason = None \<rparr>]],
       auditLog = [],
       builtins = Map.empty \<rparr>"

text \<open>
  \<open>logAuditEvent\<close>: stamp the event, push it, and keep the last 1000 entries once the log
  is longer than that. \<open>slice(-1000)\<close> is \<open>drop (length - 1000)\<close>.
\<close>

definition logAuditEvent :: "string \<Rightarrow> event \<Rightarrow> database \<Rightarrow> database" where
  "logAuditEvent now ev db =
     (let pushed = auditLog db @ [\<lparr> timestamp = now, logged = ev \<rparr>]
      in db \<lparr> auditLog :=
                (if length pushed > 1000 then drop (length pushed - 1000) pushed
                 else pushed) \<rparr>)"

section \<open>Requests, responses and the clock\<close>

text \<open>
  The body of a rollback request after \<open>bodyParser.json()\<close>: its own fields. The three
  fields the handler uses as text (\<open>flag_key\<close> as a property key, the incident fields
  inside a template string) are strings when present, as \<open>PathCanaryRollbackRequest\<close>
  declares them; \<open>enabled\<close>, \<open>source\<close> and \<open>metadata\<close> are whatever JSON value arrived,
  \<open>JUndefined\<close> when the body has no such field.
\<close>

record body =
  flag_key :: "string option"
  enabled :: jsval
  incident_id :: "string option"
  incident_message :: "string option"
  source :: jsval
  metadata :: jsval

record request =
  authorization :: "string option"
  user_agent :: "string option"
  x_pathcanary_request_id :: "string option"
  ip :: string
  payload :: body

text \<open>
  What one request reads from outside: the readings of the clock, the identifier
  \<open>generateRequestId\<close> draws, and the text the engine puts into a thrown \<open>TypeError\<close>.
  \<open>time_updated\<close> is the reading the toggle writes into the flag.
\<close>

record env =
  time_updated :: plain
  time_logged :: string
  time_error_logged :: string
  duration_ms :: int
  error_duration_ms :: int
  generated_id :: string
  thrown_message :: string
  thrown_stack :: string

text \<open>
  The JSON a response carries, with its HTTP status. A field the handler does not send,
  or sends as \<open>undefined\<close>, is \<open>None\<close>.
\<close>

record response =
  status :: nat
  success :: bool
  res_flag_key :: "string option"
  previous_state :: "bool option"
  new_state :: "bool option"
  error :: "string option"
  provider_metadata :: "(string \<times> jsval) list option"

text \<open>What handling a request leaves behind: the response, and the state after it.\<close>

datatype outcome = Reply response database

fun reply_of :: "outcome \<Rightarrow> response option" where
  "reply_of (Reply r db) = Some r"

section \<open>Authentication: \<open>validateApiKey\<close>\<close>

datatype authResult =
    Rejected response database
  | Authenticated ident string

definition unauthorized :: "string \<Rightarrow> response" where
  "unauthorized msg =
     \<lparr> status = 401, success = False, res_flag_key = None, previous_state = None,
       new_state = None, error = Some msg, provider_metadata = None \<rparr>"

definition startsWith :: "string \<Rightarrow> string \<Rightarrow> bool" where
  "startsWith s p = (take (length p) s = p)"

text \<open>The branch \<open>if (!customerId)\<close>: an \<open>AUTH_FAILED\<close> entry and the 401.\<close>

definition invalid_key :: "env \<Rightarrow> request \<Rightarrow> string \<Rightarrow> database \<Rightarrow> authResult" where
  "invalid_key e req apiKey db =
     Rejected (unauthorized ''Invalid API key'')
       (logAuditEvent (time_logged e)
          (AuthFailedEvent (take 10 apiKey @ ''...'') (ip req) (user_agent req)) db)"

text \<open>
  \<open>customerId\<close> is what \<open>database.apiKeys[apiKey]\<close> finds: the tenant stored under the
  key, a built-in object, or a value stamped onto \<open>Object.prototype\<close>.
\<close>

definition validateApiKey :: "env \<Rightarrow> request \<Rightarrow> database \<Rightarrow> authResult" where
  "validateApiKey e req db =
     (case authorization req of
        None \<Rightarrow>
          Rejected (unauthorized
            ''Missing or invalid Authorization header. Expected format: Bearer YOUR_API_KEY'') db
      | Some authHeader \<Rightarrow>
          if authHeader = [] \<or> \<not> startsWith authHeader ''Bearer ''
          then Rejected (unauthorized
                 ''Missing or invalid Authorization header. Expected format: Bearer YOUR_API_KEY'') db
          else
            let apiKey = drop 7 authHeader in
            case getProp (builtins db) (apiKeys db) apiKey of
              Own customerId \<Rightarrow>
                if plain_text customerId = [] then invalid_key e req apiKey db
                else Authenticated (Tenant customerId) apiKey
            | Stamped (SStr customerId) \<Rightarrow>
                if plain_text customerId = [] then invalid_key e req apiKey db
                else Authenticated (Tenant customerId) apiKey
            | Stamped (SBool customerId) \<Rightarrow>
                if \<not> customerId then invalid_key e req apiKey db
                else Authenticated Truth apiKey
            | Inherited m \<Rightarrow> Authenticated (Builtin m) apiKey
            | Absent \<Rightarrow> invalid_key e req apiKey db)"

text \<open>\<open>logRequest\<close>: the request id is the header when it is there, a fresh one otherwise.\<close>

definition logRequest :: "env \<Rightarrow> request \<Rightarrow> string" where
  "logRequest e req =
     (case x_pathcanary_request_id req of
        None \<Rightarrow> generated_id e
      | Some h \<Rightarrow> if h = [] then generated_id e else h)"

section \<open>The webhook handler\<close>

definition bad_request :: "string \<Rightarrow> string \<Rightarrow> response" where
  "bad_request k msg =
     \<lparr> status = 400, success = False, res_flag_key = Some k, previous_state = Some False,
       new_state = Some False, error = Some msg, provider_metadata = None \<rparr>"

text \<open>
  The destructuring \<open>const { flag_key, enabled, ... } = req.body\<close> reads each field from the
  body and, when the body has none, from \<open>Object.prototype\<close>. Of the six names only
  \<open>enabled\<close> is one the handler ever writes there, so the other five are the body's own.
\<close>

definition body_enabled :: "builtins \<Rightarrow> body \<Rightarrow> jsval" where
  "body_enabled bs b =
     (if enabled b \<noteq> JUndefined then enabled b
      else case bs ''__proto__'' of
             None \<Rightarrow> JUndefined
           | Some st \<Rightarrow> JBool (st_enabled st))"

text \<open>
  \<open>metadata.environment || 'production'\<close>, after the default \<open>metadata = {}\<close> has replaced
  a missing field. Reading a property of \<open>null\<close> throws: \<open>None\<close>. A string, number,
  boolean or array has no such property, and nothing writes one to \<open>Object.prototype\<close>.
\<close>

fun metadata_environment :: "jsval \<Rightarrow> jsval option" where
  "metadata_environment JNull = None"
| "metadata_environment (JObj kvs) =
     (case map_of kvs ''environment'' of
        Some v \<Rightarrow> Some (if truthy v then v else JStr ''production'')
      | None \<Rightarrow> Some (JStr ''production''))"
| "metadata_environment v = Some (JStr ''production'')"

text \<open>A body field read after the guard that it is there.\<close>

fun str_of :: "string option \<Rightarrow> string" where
  "str_of None = []"
| "str_of (Some s) = s"

fun is_boolean :: "jsval \<Rightarrow> bool" where
  "is_boolean (JBool v) = True"
| "is_boolean v = False"

fun bool_of :: "jsval \<Rightarrow> bool" where
  "bool_of (JBool v) = v"
| "bool_of v = False"

text \<open>The \<open>catch\<close> block: a \<open>WEBHOOK_ERROR\<close> entry and the 500 response.\<close>

definition internal_error :: "env \<Rightarrow> ident \<Rightarrow> string \<Rightarrow> body \<Rightarrow> database \<Rightarrow> outcome" where
  "internal_error e c requestId b db =
     Reply
       \<lparr> status = 500, success = False,
         res_flag_key = Some (str_of (flag_key b)),
         previous_state = Some False, new_state = Some False,
         error = Some ''Internal server error. Please contact support.'',
         provider_metadata =
           Some [(''request_id'', JStr requestId), (''duration_ms'', JNum (error_duration_ms e))] \<rparr>
       (logAuditEvent (time_error_logged e)
          (WebhookErrorEvent c (thrown_message e) (thrown_stack e) requestId (error_duration_ms e))
          db)"

text \<open>The flag was not found: the audit entry, then the response (whose \<open>metadata\<close> read may throw).\<close>

definition flag_not_found :: "env \<Rightarrow> ident \<Rightarrow> string \<Rightarrow> body \<Rightarrow> database \<Rightarrow> outcome" where
  "flag_not_found e c requestId b db =
     (let k = str_of (flag_key b);
          md = (if metadata b = JUndefined then JObj [] else metadata b);
          db1 = logAuditEvent (time_logged e)
                  (FlagNotFoundEvent c k (str_of (incident_id b)) requestId) db
      in case metadata_environment md of
           None \<Rightarrow> internal_error e c requestId b db1
         | Some environment \<Rightarrow>
             Reply
               \<lparr> status = 200, success = False, res_flag_key = Some k,
                 previous_state = Some False, new_state = Some False,
                 error = Some (''Feature flag '' @ [CHR 0x27] @ k @ [CHR 0x27]
                               @ '' not found for customer '' @ identString c),
                 provider_metadata =
                   Some (identJson (builtins db) c @ [(''environment'', environment)]) \<rparr>
               db1)"

text \<open>
  What \<open>customerFlags[flag_key]\<close> gave, when it is truthy: a flag record, a built-in
  object, or a value stamped onto \<open>Object.prototype\<close> (found there, or stored in the table
  by an earlier request). \<open>None\<close> is the branch \<open>if (!flag)\<close>.
\<close>

datatype target = TFlag flag | TBuiltin string | TPrim stampval

fun as_target :: "entry lookup \<Rightarrow> target option" where
  "as_target (Own (Flag f)) = Some (TFlag f)"
| "as_target (Own (BuiltinRef m)) = Some (TBuiltin m)"
| "as_target (Own (Prim p)) = (if truthy_stampval p then Some (TPrim p) else None)"
| "as_target (Stamped p) = (if truthy_stampval p then Some (TPrim p) else None)"
| "as_target (Inherited m) = Some (TBuiltin m)"
| "as_target Absent = None"

text \<open>
  \<open>flag.enabled\<close>, \<open>flag.id\<close> and \<open>flag.environment\<close>. A record has its own. A built-in
  function has the \<open>enabled\<close> stamped onto it or else the one stamped onto
  \<open>Object.prototype\<close>, as has a boolean or a string; none of them has an \<open>id\<close> or an
  \<open>environment\<close>.
\<close>

fun target_enabled :: "builtins \<Rightarrow> target \<Rightarrow> bool option" where
  "target_enabled bs (TFlag f) = Some (fl_enabled f)"
| "target_enabled bs (TBuiltin m) =
     (case bs m of
        Some st \<Rightarrow> Some (st_enabled st)
      | None \<Rightarrow> if m = ''__proto__'' then None else map_option st_enabled (bs ''__proto__''))"
| "target_enabled bs (TPrim p) = map_option st_enabled (bs ''__proto__'')"

fun target_id :: "target \<Rightarrow> string option" where
  "target_id (TFlag f) = Some (fl_id f)"
| "target_id t = None"

fun target_environment :: "target \<Rightarrow> string option" where
  "target_environment (TFlag f) = Some (fl_environment f)"
| "target_environment t = None"

text \<open>
  The four assignments \<open>flag.enabled = enabled\<close>, \<open>flag.updated_at = ...\<close>,
  \<open>flag.updated_by = 'pathcanary'\<close>, \<open>flag.update_reason = ...\<close>. On a record they change
  the record; on a built-in object they stamp that object, for every holder of it; on a
  boolean or a string they do nothing (the module is not in strict mode).
\<close>

fun stamp_flag :: "stamp \<Rightarrow> target \<Rightarrow> target" where
  "stamp_flag st (TFlag f) =
     TFlag (f \<lparr> fl_enabled := st_enabled st,
                fl_updated_at := plain_text (st_updated_at st),
                fl_updated_by := Some ''pathcanary'',
                fl_update_reason :=
                  Some (update_reason (st_incident_id st) (st_incident_message st)) \<rparr>)"
| "stamp_flag st t = t"

fun stamp_builtins :: "stamp \<Rightarrow> target \<Rightarrow> builtins \<Rightarrow> builtins" where
  "stamp_builtins st (TBuiltin m) bs = bs (m \<mapsto> st)"
| "stamp_builtins st t bs = bs"

text \<open>\<open>flag.updated_at\<close>, read after the assignments.\<close>

fun target_updated_at :: "builtins \<Rightarrow> target \<Rightarrow> string option" where
  "target_updated_at bs (TFlag f) = Some (fl_updated_at f)"
| "target_updated_at bs (TBuiltin m) =
     (case bs m of
        Some st \<Rightarrow> Some (plain_text (st_updated_at st))
      | None \<Rightarrow> if m = ''__proto__'' then None
                else map_option (\<lambda>st. plain_text (st_updated_at st)) (bs ''__proto__''))"
| "target_updated_at bs (TPrim p) =
     map_option (\<lambda>st. plain_text (st_updated_at st)) (bs ''__proto__'')"

fun entry_of :: "target \<Rightarrow> entry" where
  "entry_of (TFlag f) = Flag f"
| "entry_of (TBuiltin m) = BuiltinRef m"
| "entry_of (TPrim p) = Prim p"

text \<open>
  \<open>customerFlags[flag_key] = flag\<close>. The key becomes an own entry of the table, except
  for the key \<open>__proto__\<close> on a table that has no such entry: that assignment sets the
  table's prototype, to the \<open>Object.prototype\<close> it already is.
\<close>

definition write_back :: "(string \<rightharpoonup> entry) \<Rightarrow> string \<Rightarrow> entry \<Rightarrow> (string \<rightharpoonup> entry)" where
  "write_back customerFlags k v =
     (if k = ''__proto__'' \<and> customerFlags k = None then customerFlags
      else customerFlags (k \<mapsto> v))"

text \<open>A field of \<open>provider_metadata\<close>, which \<open>JSON.stringify\<close> leaves out when \<open>undefined\<close>.\<close>

fun json_field :: "string \<Rightarrow> string option \<Rightarrow> (string \<times> jsval) list" where
  "json_field name None = []"
| "json_field name (Some s) = [(name, JStr s)]"

text \<open>
  The flag was found: stamp it in place, store it, write the audit entry, respond.
  \<open>stored\<close> is the tenant's table when \<open>database.featureFlags\<close> has one; the \<open>{}\<close> used
  otherwise is dropped after the request.
\<close>

definition toggle_flag ::
  "env \<Rightarrow> ident \<Rightarrow> string \<Rightarrow> body \<Rightarrow> (string \<rightharpoonup> entry) option \<Rightarrow> target \<Rightarrow> database \<Rightarrow> outcome" where
  "toggle_flag e c requestId b stored flag db =
     (let k = str_of (flag_key b);
          v = bool_of (body_enabled (builtins db) b);
          md = (if metadata b = JUndefined then JObj [] else metadata b);
          previousState = target_enabled (builtins db) flag;
          st = \<lparr> st_enabled = v, st_updated_at = time_updated e,
                 st_incident_id = str_of (incident_id b),
                 st_incident_message = str_of (incident_message b) \<rparr>;
          flag' = stamp_flag st flag;
          bs' = stamp_builtins st flag (builtins db);
          db1 = db \<lparr> featureFlags :=
                       (case stored of
                          None \<Rightarrow> featureFlags db
                        | Some customerFlags \<Rightarrow>
                            (featureFlags db)
                              (identString c \<mapsto> write_back customerFlags k (entry_of flag'))),
                     builtins := bs' \<rparr>;
          db2 = logAuditEvent (time_logged e)
                  (FlagToggledEvent c k (target_id flag') previousState v
                     (str_of (incident_id b)) (str_of (incident_message b)) requestId md) db1
      in Reply
           \<lparr> status = 200, success = True, res_flag_key = Some k,
             previous_state = previousState, new_state = Some v, error = None,
             provider_metadata =
               Some (json_field ''flag_id'' (target_id flag') @ identJson bs' c @
                     json_field ''environment'' (target_environment flag') @
                     json_field ''updated_at'' (target_updated_at bs' flag') @
                     [(''duration_ms'', JNum (duration_ms e))]) \<rparr>
           db2)"

text \<open>
  The body of the handler, for a request that passed \<open>validateApiKey\<close> as \<open>c\<close> and got the
  request id \<open>requestId\<close> from \<open>logRequest\<close>. \<open>database.featureFlags[req.customer.id] || {}\<close>
  is the tenant's table, or a fresh empty object: no identity prints as the name of an
  inherited member or of a stamped field, so this read finds own entries only.
\<close>

definition pathcanary_webhook :: "env \<Rightarrow> ident \<Rightarrow> string \<Rightarrow> body \<Rightarrow> database \<Rightarrow> outcome" where
  \<open>pathcanary_webhook e c requestId b db =
     (if falsy_str (flag_key b)
      then Reply (bad_request [] ''Missing required field: flag_key'') db
      else if \<not> is_boolean (body_enabled (builtins db) b)
      then Reply (bad_request (str_of (flag_key b))
                    ''Missing or invalid required field: enabled (must be boolean)'') db
      else if falsy_str (incident_id b) \<or> falsy_str (incident_message b)
      then Reply (bad_request (str_of (flag_key b))
                    ''Missing required fields: incident_id, incident_message'') db
      else if source b \<noteq> JStr ''pathcanary''
      then Reply (bad_request (str_of (flag_key b)) ''Invalid source. Expected "pathcanary"'') db
      else
        let stored = featureFlags db (identString c);
            customerFlags = (case stored of Some t \<Rightarrow> t | None \<Rightarrow> Map.empty)
        in case as_target (getProp (builtins db) customerFlags (str_of (flag_key b))) of
             None \<Rightarrow> flag_not_found e c requestId b db
           | Some flag \<Rightarrow> toggle_flag e c requestId b stored flag db)\<close>

text \<open>\<open>app.post('/webhook/pathcanary', validateApiKey, logRequest, handler)\<close>.\<close>

definition webhook_endpoint :: "env \<Rightarrow> request \<Rightarrow> database \<Rightarrow> outcome" where
  "webhook_endpoint e req db =
     (case validateApiKey e req db of
        Rejected resp db' \<Rightarrow> Reply resp db'
      | Authenticated c apiKey \<Rightarrow> pathcanary_webhook e c (logRequest e req) (payload req) db)"


section \<open>The partner SDK client\<close>

text \<open>A thrown JavaScript error: its \<open>name\<close> and its \<open>message\<close>.\<close>

record jsError =
  err_name :: string
  err_message :: string

text \<open>\<open>new Error(msg)\<close>.\<close>

definition Error :: "string \<Rightarrow> jsError" where
  "Error msg = \<lparr> err_name = ''Error'', err_message = msg \<rparr>"

text \<open>A whole number inside a template string.\<close>

fun show_nat :: "nat \<Rightarrow> string" where
  "show_nat n = (if n < 10 then [''0123456789'' ! n]
                 else show_nat (n div 10) @ [''0123456789'' ! (n mod 10)])"

declare show_nat.simps [simp del]

definition show_int :: "int \<Rightarrow> string" where
  "show_int i = (if i < 0 then ''-'' @ show_nat (nat (- i)) else show_nat (nat i))"

text \<open>
  \<open>PartnerSDKConfig\<close> as the caller passes it (an optional field that is not given is
  \<open>None\<close>), and the \<open>Required<PartnerSDKConfig>\<close> the constructor stores: the defaults,
  overwritten by the fields that are given. The numbers are whole numbers.
\<close>

record partnerSDKConfig =
  given_webhookUrl :: string
  given_apiKey :: string
  given_timeout :: "int option"
  given_retryAttempts :: "int option"
  given_debug :: "bool option"

record config =
  webhookUrl :: string
  apiKey :: string
  timeout :: int
  retryAttempts :: int
  debug :: bool

definition constructor :: "partnerSDKConfig \<Rightarrow> config" where
  "constructor cfg =
     \<lparr> webhookUrl = given_webhookUrl cfg,
       apiKey = given_apiKey cfg,
       timeout = (case given_timeout cfg of None \<Rightarrow> 30000 | Some t \<Rightarrow> t),
       retryAttempts = (case given_retryAttempts cfg of None \<Rightarrow> 3 | Some n \<Rightarrow> n),
       debug = (case given_debug cfg of None \<Rightarrow> False | Some d \<Rightarrow> d) \<rparr>"

text \<open>
  \<open>field in response\<close> for the four required names. An object has a name when it is one
  of its keys (none of the four is inherited); an array has none of them; on anything
  that is not an object the operator throws a \<open>TypeError\<close>, here \<open>None\<close>.
\<close>

fun has_field :: "string \<Rightarrow> jsval \<Rightarrow> bool option" where
  "has_field f (JObj kvs) = Some (f \<in> fst ` set kvs)"
| "has_field f (JArr xs) = Some False"
| "has_field f v = None"

text \<open>\<open>response.field\<close> on a value that passed the \<open>in\<close> checks.\<close>

fun get_field :: "string \<Rightarrow> jsval \<Rightarrow> jsval" where
  "get_field f (JObj kvs) = (case map_of kvs f of Some v \<Rightarrow> v | None \<Rightarrow> JUndefined)"
| "get_field f v = JUndefined"

fun is_string :: "jsval \<Rightarrow> bool" where
  "is_string (JStr s) = True"
| "is_string v = False"

text \<open>\<open>missing.join(', ')\<close>.\<close>

fun join :: "string list \<Rightarrow> string" where
  "join [] = []"
| "join [x] = x"
| "join (x # y # ys) = x @ '', '' @ join (y # ys)"

definition required :: "string list" where
  "required = [''success'', ''flag_key'', ''previous_state'', ''new_state'']"

text \<open>
  \<open>validateResponse\<close>: \<open>None\<close> when it returns, the error when it throws.
  \<open>in_operator_message\<close> is the text the engine gives the \<open>TypeError\<close> of \<open>in\<close>.
\<close>

definition validateResponse :: "string \<Rightarrow> jsval \<Rightarrow> jsError option" where
  \<open>validateResponse in_operator_message response =
     (case has_field ''success'' response of
        None \<Rightarrow> Some \<lparr> err_name = ''TypeError'', err_message = in_operator_message \<rparr>
      | Some _ \<Rightarrow>
          let missing = filter (\<lambda>field. has_field field response \<noteq> Some True) required in
          if length missing > 0
          then Some (Error (''Invalid response: missing required fields: '' @ join missing))
          else if \<not> is_boolean (get_field ''success'' response)
          then Some (Error ''Invalid response: "success" must be a boolean'')
          else if \<not> is_string (get_field ''flag_key'' response)
          then Some (Error ''Invalid response: "flag_key" must be a string'')
          else if \<not> is_boolean (get_field ''previous_state'' response)
          then Some (Error ''Invalid response: "previous_state" must be a boolean'')
          else if \<not> is_boolean (get_field ''new_state'' response)
          then Some (Error ''Invalid response: "new_state" must be a boolean'')
          else if truthy (get_field ''error'' response)
                  \<and> \<not> is_string (get_field ''error'' response)
          then Some (Error ''Invalid response: "error" must be a string'')
          else None)\<close>

text \<open>
  What \<open>fetch\<close> gives one call: it rejects (a network failure, or an \<open>AbortError\<close> when the
  timer fired), or it resolves to a response with a status, the text of its body, and
  what \<open>response.json()\<close> makes of that text (a \<open>SyntaxError\<close> when it is not JSON).
\<close>

record httpResponse =
  http_status :: nat
  body_text :: string
  body_json :: "jsError + jsval"

datatype fetched = FetchRejected jsError | FetchResolved httpResponse

definition ok :: "httpResponse \<Rightarrow> bool" where
  "ok r = (200 \<le> http_status r \<and> http_status r \<le> 299)"

text \<open>The \<open>try\<close> block of \<open>testToggleFlag\<close>.\<close>

definition attempt_toggle :: "string \<Rightarrow> fetched \<Rightarrow> jsError + jsval" where
  "attempt_toggle in_operator_message f =
     (case f of
        FetchRejected err \<Rightarrow> Inl err
      | FetchResolved r \<Rightarrow>
          if \<not> ok r
          then Inl (Error (''HTTP '' @ show_nat (http_status r) @ '': '' @ body_text r))
          else case body_json r of
                 Inl err \<Rightarrow> Inl err
               | Inr data \<Rightarrow>
                   (case validateResponse in_operator_message data of
                      Some err \<Rightarrow> Inl err
                    | None \<Rightarrow> Inr data))"

text \<open>\<open>testToggleFlag\<close>: the \<open>try\<close> block, and the \<open>catch\<close> that renames a timeout.\<close>

definition testToggleFlag :: "config \<Rightarrow> string \<Rightarrow> fetched \<Rightarrow> jsError + jsval" where
  "testToggleFlag cfg in_operator_message f =
     (case attempt_toggle in_operator_message f of
        Inr data \<Rightarrow> Inr data
      | Inl err \<Rightarrow>
          if err_name err = ''AbortError''
          then Inl (Error (''Request timeout after '' @ show_int (timeout cfg) @ ''ms''))
          else Inl err)"

text \<open>
  \<open>testToggleFlagWithRetry\<close>. Each attempt makes its own \<open>fetch\<close>: \<open>exchange n\<close> is what
  the \<open>fetch\<close> of attempt \<open>n\<close> gives. A run records the attempts made and the delays slept,
  in order, beside what the method returns or throws.
\<close>

record run =
  result :: "jsError + jsval"
  calls :: "int list"
  sleeps :: "int list"

text \<open>\<open>Math.min(1000 * Math.pow(2, attempt - 1), 10000)\<close>, for \<open>attempt\<close> from 1 on.\<close>

definition delay :: "int \<Rightarrow> int" where
  "delay attempt = min (1000 * 2 ^ nat (attempt - 1)) 10000"

text \<open>\<open>lastError?.message\<close> inside the template string.\<close>

fun last_message :: "jsError option \<Rightarrow> string" where
  "last_message None = ''undefined''"
| "last_message (Some err) = err_message err"

function retry_loop ::
  "config \<Rightarrow> string \<Rightarrow> (int \<Rightarrow> fetched) \<Rightarrow> int \<Rightarrow> jsError option \<Rightarrow> run" where
  "retry_loop cfg iom exchange attempt lastError =
     (if attempt \<le> retryAttempts cfg
      then (case testToggleFlag cfg iom (exchange attempt) of
              Inr data \<Rightarrow> \<lparr> result = Inr data, calls = [attempt], sleeps = [] \<rparr>
            | Inl err \<Rightarrow>
                let rest = retry_loop cfg iom exchange (attempt + 1) (Some err)
                in rest \<lparr> calls := attempt # calls rest,
                          sleeps := (if attempt < retryAttempts cfg then [delay attempt] else [])
                                    @ sleeps rest \<rparr>)
      else \<lparr> result = Inl (Error (''Failed after '' @ show_int (retryAttempts cfg)
                                   @ '' attempts: '' @ last_message lastError)),
             calls = [], sleeps = [] \<rparr>)"
  by pat_completeness auto
termination
  by (relation "measure (\<lambda>(cfg, iom, exchange, attempt, lastError).
                   nat (retryAttempts cfg + 1 - attempt))") auto

declare retry_loop.simps [simp del]

definition testToggleFlagWithRetry :: "config \<Rightarrow> string \<Rightarrow> (int \<Rightarrow> fetched) \<Rightarrow> run" where
  "testToggleFlagWithRetry cfg iom exchange = retry_loop cfg iom exchange 1 None"

section \<open>Notions the properties are stated with\<close>

text \<open>A body whose own fields pass the four checks of the handler.\<close>

definition valid_request :: "body \<Rightarrow> bool" where
  "valid_request b \<longleftrightarrow>
     \<not> falsy_str (flag_key b) \<and> is_boolean (enabled b)
     \<and> \<not> falsy_str (incident_id b) \<and> \<not> falsy_str (incident_message b)
     \<and> source b = JStr ''pathcanary''"

text \<open>
  A body whose destructuring passes the four checks in a given state of the built-in
  objects: \<open>enabled\<close> is the body's own field or, without one, the inherited one.
\<close>

definition passes_checks :: "builtins \<Rightarrow> body \<Rightarrow> bool" where
  "passes_checks bs b \<longleftrightarrow>
     \<not> falsy_str (flag_key b) \<and> is_boolean (body_enabled bs b)
     \<and> \<not> falsy_str (incident_id b) \<and> \<not> falsy_str (incident_message b)
     \<and> source b = JStr ''pathcanary''"

text \<open>
  What a tenant's table holds under a key as an own entry, and the flag record among
  these, if any.
\<close>

definition entry_at :: "database \<Rightarrow> string \<Rightarrow> string \<Rightarrow> entry option" where
  "entry_at db c k = (case featureFlags db c of None \<Rightarrow> None | Some fs \<Rightarrow> fs k)"

fun flag_of :: "entry option \<Rightarrow> flag option" where
  "flag_of (Some (Flag f)) = Some f"
| "flag_of v = None"

definition flag_at :: "database \<Rightarrow> string \<Rightarrow> string \<Rightarrow> flag option" where
  "flag_at db c k = flag_of (entry_at db c k)"

text \<open>A run of calls to \<open>logAuditEvent\<close>, each with the clock reading it stamps.\<close>

fun log_events :: "(string \<times> event) list \<Rightarrow> database \<Rightarrow> database" where
  "log_events [] db = db"
| "log_events ((now, ev) # evs) db = log_events evs (logAuditEvent now ev db)"


text \<open>The last \<open>n\<close> elements of a list, in the list's order.\<close>

definition last_n :: "nat \<Rightarrow> 'a list \<Rightarrow> 'a list" where
  "last_n n xs = drop (length xs - n) xs"

text \<open>
  The response schema, twice. Both ask for the four required fields with their types.
  \<open>claimed_schema\<close> follows the words of the specification: an \<open>error\<close> field that is
  present is a string. \<open>accepted_schema\<close> asks that of a truthy \<open>error\<close> field only.
\<close>

fun typed_boolean :: "jsval option \<Rightarrow> bool" where
  "typed_boolean (Some (JBool b)) = True"
| "typed_boolean v = False"

fun typed_string :: "jsval option \<Rightarrow> bool" where
  "typed_string (Some (JStr s)) = True"
| "typed_string v = False"

fun required_fields_typed :: "jsval \<Rightarrow> bool" where
  "required_fields_typed (JObj kvs) =
     (typed_boolean (map_of kvs ''success'') \<and> typed_string (map_of kvs ''flag_key'')
      \<and> typed_boolean (map_of kvs ''previous_state'')
      \<and> typed_boolean (map_of kvs ''new_state''))"
| "required_fields_typed v = False"

fun error_field :: "jsval \<Rightarrow> jsval option" where
  "error_field (JObj kvs) = map_of kvs ''error''"
| "error_field v = None"

definition claimed_schema :: "jsval \<Rightarrow> bool" where
  "claimed_schema data \<longleftrightarrow>
     required_fields_typed data
     \<and> (case error_field data of None \<Rightarrow> True | Some v \<Rightarrow> is_string v)"

definition accepted_schema :: "jsval \<Rightarrow> bool" where
  "accepted_schema data \<longleftrightarrow>
     required_fields_typed data
     \<and> (case error_field data of None \<Rightarrow> True | Some v \<Rightarrow> \<not> truthy v \<or> is_string v)"

subsection \<open>Sample inputs\<close>

text \<open>
  The request of the server's start-up banner, sent with the test credentials, and a
  clock for it.
\<close>

definition example_env :: env where
  "example_env =
     \<lparr> time_updated = Plain ''2025-10-26T14:32:00.000Z'', time_logged = ''2025-10-26T14:32:00.001Z'',
       time_error_logged = ''2025-10-26T14:32:00.002Z'', duration_ms = 1, error_duration_ms = 2,
       generated_id = ''req_1761489120000_0a1b2c3d'',
       thrown_message = ''Cannot read properties of null'', thrown_stack = ''at handler'' \<rparr>"

definition example_body :: body where
  "example_body =
     \<lparr> flag_key = Some ''new-checkout-flow'', enabled = JBool False,
       incident_id = Some ''test-123'', incident_message = Some ''Test rollback'',
       source = JStr ''pathcanary'', metadata = JUndefined \<rparr>"

definition example_request :: request where
  "example_request =
     \<lparr> authorization = Some ''Bearer test_sk_abc123def456'', user_agent = Some ''curl'',
       x_pathcanary_request_id = None, ip = ''127.0.0.1'', payload = example_body \<rparr>"

text \<open>A client with the default settings, and what a provider may send it.\<close>

definition example_config :: config where
  "example_config =
     constructor \<lparr> given_webhookUrl = ''http://localhost:3002/webhook/pathcanary'',
                   given_apiKey = ''test_sk_abc123def456'', given_timeout = None,
                   given_retryAttempts = None, given_debug = None \<rparr>"

definition resolved :: "nat \<Rightarrow> jsval \<Rightarrow> fetched" where
  "resolved st data =
     FetchResolved \<lparr> http_status = st, body_text = [], body_json = Inr data \<rparr>"

definition example_response :: jsval where
  "example_response =
     JObj [(''success'', JBool True), (''flag_key'', JStr ''new-checkout-flow''),
           (''previous_state'', JBool True), (''new_state'', JBool False)]"

definition example_not_found_body :: jsval where
  "example_not_found_body =
     JObj [(''success'', JBool False), (''flag_key'', JStr ''does-not-exist''),
           (''previous_state'', JBool False), (''new_state'', JBool False),
           (''error'', JStr ''Feature flag not found'')]"

definition example_malformed_body :: jsval where
  "example_malformed_body = JObj [(''success'', JStr ''yes''), (''flag_key'', JStr ''x'')]"

definition example_bad_body :: jsval where
  "example_bad_body =
     JObj [(''success'', JBool False), (''flag_key'', JStr ''new-checkout-flow''),
           (''previous_state'', JBool False), (''new_state'', JBool False),
           (''error'', JNum 0)]"

text \<open>Two timeouts, then an answer; and a provider that reports a flag as not found.\<close>

definition example_exchange :: "int \<Rightarrow> fetched" where
  "example_exchange attempt =
     (if attempt < 3
      then FetchRejected \<lparr> err_name = ''AbortError'',
                           err_message = ''This operation was aborted'' \<rparr>
      else resolved 200 example_response)"

definition example_refusal :: "int \<Rightarrow> fetched" where
  "example_refusal attempt = resolved 200 example_not_found_body"

section \<open>Facts about the provider\<close>

subsection \<open>Names and lookups\<close>

lemma plain_text_Plain [simp]:
  "s \<notin> set objectPrototypeMembers \<Longrightarrow> s \<notin> set stampedFields \<Longrightarrow> plain_text (Plain s) = s"
  by (simp add: Plain_inverse)

lemma plain_text_plain:
  "plain_text p \<notin> set objectPrototypeMembers" "plain_text p \<notin> set stampedFields"
  using plain_text [of p] by simp_all

lemma update_reason_plain [simp]:
  "plain_text (Plain (update_reason i m)) = update_reason i m"
  by (rule plain_text_Plain)
     (simp_all add: update_reason_def objectPrototypeMembers_def stampedFields_def)

lemma stamp_field_names: "stamp_field st k \<noteq> None \<longleftrightarrow> k \<in> set stampedFields"
  by (simp add: stamp_field_def stampedFields_def)

text \<open>
  No identity prints as the name of an inherited member or of a stamped field, so
  \<open>database.featureFlags[req.customer.id]\<close> is the tenant's own table or \<open>undefined\<close>.
\<close>

lemma identString_own:
  "identString c \<notin> set objectPrototypeMembers" "identString c \<notin> set stampedFields"
proof -
  show "identString c \<notin> set objectPrototypeMembers"
  proof (cases c)
    case (Tenant p)
    then show ?thesis by (simp add: identString_def plain_text_plain)
  next
    case (Builtin m)
    then show ?thesis by (simp add: identString_def objectPrototypeMembers_def)
  next
    case Truth
    then show ?thesis by (simp add: identString_def objectPrototypeMembers_def)
  qed
  show "identString c \<notin> set stampedFields"
  proof (cases c)
    case (Tenant p)
    then show ?thesis by (simp add: identString_def plain_text_plain)
  next
    case (Builtin m)
    then show ?thesis by (simp add: identString_def stampedFields_def)
  next
    case Truth
    then show ?thesis by (simp add: identString_def stampedFields_def)
  qed
qed

lemma tenant_table_lookup:
  "getProp bs tables (identString c)
     = (case tables (identString c) of Some t \<Rightarrow> Own t | None \<Rightarrow> Absent)"
proof -
  have "stamp_field st (identString c) = None" for st
    using stamp_field_names [of st "identString c"] identString_own(2) [of c] by blast
  then show ?thesis
    by (simp add: getProp_def identString_own(1) split: option.splits)
qed

text \<open>
  Of the names the handler reads from a body, \<open>enabled\<close> is the one that can come from
  \<open>Object.prototype\<close>.
\<close>

lemma inherited_body_fields:
  "getProp bs (Map.empty :: string \<rightharpoonup> jsval) ''flag_key'' = Absent"
  "getProp bs (Map.empty :: string \<rightharpoonup> jsval) ''incident_id'' = Absent"
  "getProp bs (Map.empty :: string \<rightharpoonup> jsval) ''incident_message'' = Absent"
  "getProp bs (Map.empty :: string \<rightharpoonup> jsval) ''source'' = Absent"
  "getProp bs (Map.empty :: string \<rightharpoonup> jsval) ''metadata'' = Absent"
  "getProp bs (Map.empty :: string \<rightharpoonup> jsval) ''environment'' = Absent"
  "getProp bs (Map.empty :: string \<rightharpoonup> jsval) ''enabled''
     = (case bs ''__proto__'' of
          None \<Rightarrow> Absent
        | Some st \<Rightarrow> Stamped (SBool (st_enabled st)))"
  by (simp_all add: getProp_def objectPrototypeMembers_def stamp_field_def split: option.splits)

lemma own_enabled: "is_boolean (enabled b) \<Longrightarrow> body_enabled bs b = enabled b"
  by (cases "enabled b") (simp_all add: body_enabled_def)

lemma unstamped_enabled:
  "bs ''__proto__'' = None \<or> enabled b \<noteq> JUndefined \<Longrightarrow> body_enabled bs b = enabled b"
  by (auto simp: body_enabled_def)

subsection \<open>The audit log and the tables\<close>

lemma logAuditEvent_keeps_tables [simp]:
  "apiKeys (logAuditEvent now ev db) = apiKeys db"
  "featureFlags (logAuditEvent now ev db) = featureFlags db"
  "builtins (logAuditEvent now ev db) = builtins db"
  by (simp_all add: logAuditEvent_def Let_def)

lemma auditLog_logAuditEvent:
  "auditLog (logAuditEvent now ev db)
     = last_n 1000 (auditLog db @ [\<lparr> timestamp = now, logged = ev \<rparr>])"
  by (simp add: logAuditEvent_def Let_def last_n_def)

lemma str_of_falsy: "falsy_str s \<Longrightarrow> str_of s = []"
  by (cases s) auto

lemma str_of_present: "\<not> falsy_str s \<Longrightarrow> Some (str_of s) = s"
  by (cases s) auto

text \<open>
  Who a header authenticates as depends on the header, the API-key table and what is
  written on the built-in objects.
\<close>

lemma validateApiKey_stable:
  assumes "validateApiKey e req db = Authenticated c key"
    and "apiKeys db' = apiKeys db" and "builtins db' = builtins db"
    and "authorization req' = authorization req"
  shows "validateApiKey e' req' db' = Authenticated c key"
  using assms
  by (auto simp: validateApiKey_def invalid_key_def Let_def
        split: option.splits if_splits lookup.splits stampval.splits)

subsection \<open>The four checks\<close>

lemma valid_passes: "valid_request b \<Longrightarrow> passes_checks bs b"
  by (simp add: valid_request_def passes_checks_def own_enabled)

text \<open>
  A body passes the handler's checks when its own fields do, or when it has no \<open>enabled\<close>
  field, \<open>Object.prototype\<close> has been stamped, and its other fields pass.
\<close>

lemma passes_checks_iff:
  "passes_checks bs b \<longleftrightarrow>
     valid_request b
     \<or> (enabled b = JUndefined \<and> bs ''__proto__'' \<noteq> None
        \<and> \<not> falsy_str (flag_key b) \<and> \<not> falsy_str (incident_id b)
        \<and> \<not> falsy_str (incident_message b) \<and> source b = JStr ''pathcanary'')"
  by (cases "enabled b = JUndefined"; cases "bs ''__proto__''")
     (auto simp: passes_checks_def valid_request_def body_enabled_def)

text \<open>
  A body that does not pass is answered with HTTP 400 and the error of the first check
  that fails, the state stays what it was, and no table is read.
\<close>

lemma checks_reject:
  assumes "validateApiKey e req db = Authenticated c key"
    and "\<not> passes_checks (builtins db) (payload req)"
  shows \<open>\<exists>r. webhook_endpoint e req db = Reply r db
           \<and> status r = 400 \<and> success r = False
           \<and> res_flag_key r = Some (str_of (flag_key (payload req)))
           \<and> previous_state r = Some False \<and> new_state r = Some False
           \<and> error r = Some
                (if falsy_str (flag_key (payload req))
                 then ''Missing required field: flag_key''
                 else if \<not> is_boolean (body_enabled (builtins db) (payload req))
                 then ''Missing or invalid required field: enabled (must be boolean)''
                 else if falsy_str (incident_id (payload req))
                         \<or> falsy_str (incident_message (payload req))
                 then ''Missing required fields: incident_id, incident_message''
                 else ''Invalid source. Expected "pathcanary"'')\<close>
  using assms
  by (auto simp: webhook_endpoint_def pathcanary_webhook_def passes_checks_def bad_request_def
        str_of_falsy)

text \<open>
  As long as nothing is stamped onto \<open>Object.prototype\<close>, or for a body that has an
  \<open>enabled\<close> field of its own, the checks are checks of the body's own fields: a body
  that fails one is answered with HTTP 400, whatever the tables hold.
\<close>

lemma validation_gate_own_fields:
  assumes "validateApiKey e req db = Authenticated c key"
    and "\<not> valid_request (payload req)"
    and "builtins db ''__proto__'' = None \<or> enabled (payload req) \<noteq> JUndefined"
  shows \<open>\<exists>r. webhook_endpoint e req db = Reply r db
           \<and> status r = 400 \<and> success r = False
           \<and> res_flag_key r = Some (str_of (flag_key (payload req)))
           \<and> previous_state r = Some False \<and> new_state r = Some False
           \<and> error r = Some
                (if falsy_str (flag_key (payload req))
                 then ''Missing required field: flag_key''
                 else if \<not> is_boolean (enabled (payload req))
                 then ''Missing or invalid required field: enabled (must be boolean)''
                 else if falsy_str (incident_id (payload req))
                         \<or> falsy_str (incident_message (payload req))
                 then ''Missing required fields: incident_id, incident_message''
                 else ''Invalid source. Expected "pathcanary"'')\<close>
proof -
  have en: "body_enabled (builtins db) (payload req) = enabled (payload req)"
    by (rule unstamped_enabled [of "builtins db" "payload req", OF assms(3)])
  have "\<not> passes_checks (builtins db) (payload req)"
    using assms(2) by (simp add: passes_checks_def valid_request_def en)
  from checks_reject [OF assms(1) this] show ?thesis
    by (simp only: en)
qed

subsection \<open>The toggle of a flag record\<close>

lemma toggle_own:
  assumes "valid_request b" "flag_key b = Some k"
    and "featureFlags db (identString c) = Some fs" "fs k = Some (Flag f)"
  shows "pathcanary_webhook e c rid b db = toggle_flag e c rid b (Some fs) (TFlag f) db"
  using assms
  by (auto simp: pathcanary_webhook_def valid_request_def own_enabled getProp_def)

lemma toggle_flag_reply:
  assumes "flag_key b = Some k" "enabled b = JBool v" "fs k = Some (Flag f)"
  shows "\<exists>r db'. toggle_flag e c rid b (Some fs) (TFlag f) db = Reply r db'
          \<and> status r = 200 \<and> success r \<and> res_flag_key r = Some k
          \<and> previous_state r = Some (fl_enabled f) \<and> new_state r = Some v \<and> error r = None
          \<and> apiKeys db' = apiKeys db \<and> builtins db' = builtins db
          \<and> featureFlags db' = (featureFlags db)(identString c \<mapsto> fs(k \<mapsto> Flag
                (f\<lparr>fl_enabled := v, fl_updated_at := plain_text (time_updated e),
                   fl_updated_by := Some ''pathcanary'',
                   fl_update_reason := Some (update_reason (str_of (incident_id b))
                                               (str_of (incident_message b)))\<rparr>)))"
  using assms by (simp add: toggle_flag_def Let_def write_back_def body_enabled_def)

text \<open>One valid request for a flag the tenant has: what is answered and what is stored.\<close>

lemma toggle_step:
  assumes auth: "validateApiKey e req db = Authenticated c key"
    and v: "valid_request (payload req)"
    and k: "flag_key (payload req) = Some k"
    and en: "enabled (payload req) = JBool v"
    and flag: "flag_at db (identString c) k = Some f"
  shows "\<exists>r db' f'. webhook_endpoint e req db = Reply r db'
          \<and> status r = 200 \<and> success r \<and> res_flag_key r = Some k
          \<and> previous_state r = Some (fl_enabled f) \<and> new_state r = Some v
          \<and> apiKeys db' = apiKeys db \<and> builtins db' = builtins db
          \<and> flag_at db' (identString c) k = Some f' \<and> fl_enabled f' = v"
proof -
  from flag have "entry_at db (identString c) k = Some (Flag f)"
    by (cases "entry_at db (identString c) k" rule: flag_of.cases) (simp_all add: flag_at_def)
  then obtain fs where fs: "featureFlags db (identString c) = Some fs" "fs k = Some (Flag f)"
    by (auto simp: entry_at_def split: option.splits)
  have "webhook_endpoint e req db
          = toggle_flag e c (logRequest e req) (payload req) (Some fs) (TFlag f) db"
    unfolding webhook_endpoint_def auth by (simp add: toggle_own [OF v k fs])
  moreover from toggle_flag_reply [where b = "payload req" and k = k and v = v and fs = fs
      and f = f and e = e and c = c and rid = "logRequest e req" and db = db, OF k en fs(2)]
  obtain r db' where
    "toggle_flag e c (logRequest e req) (payload req) (Some fs) (TFlag f) db = Reply r db'"
    "status r = 200" "success r" "res_flag_key r = Some k"
    "previous_state r = Some (fl_enabled f)" "new_state r = Some v" "apiKeys db' = apiKeys db"
    "builtins db' = builtins db"
    "featureFlags db' = (featureFlags db)(identString c \<mapsto> fs(k \<mapsto> Flag
                (f\<lparr>fl_enabled := v, fl_updated_at := plain_text (time_updated e),
                   fl_updated_by := Some ''pathcanary'',
                   fl_update_reason := Some (update_reason (str_of (incident_id (payload req)))
                                               (str_of (incident_message (payload req))))\<rparr>)))"
    by blast
  ultimately show ?thesis
    by (simp add: flag_at_def entry_at_def)
qed

text \<open>A response with \<open>success: true\<close> comes from the toggle alone.\<close>

lemma success_is_toggle:
  assumes "pathcanary_webhook e c rid b db = Reply r db'" and "success r"
  shows "\<exists>flag. as_target (getProp (builtins db)
                    (case featureFlags db (identString c) of Some t \<Rightarrow> t | None \<Rightarrow> Map.empty)
                    (str_of (flag_key b))) = Some flag
              \<and> \<not> falsy_str (flag_key b)
              \<and> toggle_flag e c rid b (featureFlags db (identString c)) flag db = Reply r db'"
  using assms
  by (auto simp: pathcanary_webhook_def bad_request_def flag_not_found_def
        internal_error_def Let_def
        split: if_splits option.splits)

lemma toggle_flag_tables:
  assumes "toggle_flag e c rid b (Some fs) (TFlag f) db = Reply r db'"
    and "fs (str_of (flag_key b)) = Some (Flag f)"
  shows "apiKeys db' = apiKeys db \<and> builtins db' = builtins db
       \<and> (\<exists>f'. featureFlags db'
                 = (featureFlags db)(identString c \<mapsto> fs(str_of (flag_key b) \<mapsto> Flag f'))
              \<and> f' = f \<lparr> fl_enabled := fl_enabled f', fl_updated_at := fl_updated_at f',
                         fl_updated_by := fl_updated_by f',
                         fl_update_reason := fl_update_reason f' \<rparr>)"
proof -
  let ?f' = "f \<lparr> fl_enabled := bool_of (body_enabled (builtins db) b),
                  fl_updated_at := plain_text (time_updated e),
                  fl_updated_by := Some ''pathcanary'',
                  fl_update_reason := Some (update_reason (str_of (incident_id b))
                                              (str_of (incident_message b))) \<rparr>"
  have "apiKeys db' = apiKeys db" and "builtins db' = builtins db"
    and "featureFlags db'
           = (featureFlags db)(identString c \<mapsto> fs(str_of (flag_key b) \<mapsto> Flag ?f'))"
    using assms by (auto simp: toggle_flag_def Let_def write_back_def)
  moreover have "?f' = f \<lparr> fl_enabled := fl_enabled ?f', fl_updated_at := fl_updated_at ?f',
                         fl_updated_by := fl_updated_by ?f',
                         fl_update_reason := fl_update_reason ?f' \<rparr>"
    by simp
  ultimately show ?thesis by blast
qed

text \<open>Storing one entry of one table leaves every other entry of every table alone.\<close>

lemma update_one_flag:
  assumes "tables' = tables(ck \<mapsto> fs(k \<mapsto> f'))" and "tables ck = Some fs"
  shows "dom tables' = dom tables"
    and "(case tables' ck of None \<Rightarrow> None | Some t \<Rightarrow> t k) = Some f'"
    and "(c', k') \<noteq> (ck, k) \<Longrightarrow>
           (case tables' c' of None \<Rightarrow> None | Some t \<Rightarrow> t k')
           = (case tables c' of None \<Rightarrow> None | Some t \<Rightarrow> t k')"
  using assms by (auto split: option.splits)

lemma toggle_flag_frame:
  assumes "toggle_flag e c rid b (Some fs) (TFlag f) db = Reply r db'"
    and "featureFlags db (identString c) = Some fs"
    and "fs (str_of (flag_key b)) = Some (Flag f)"
  shows "apiKeys db' = apiKeys db \<and> builtins db' = builtins db
       \<and> dom (featureFlags db') = dom (featureFlags db)
       \<and> (\<exists>f'. flag_at db' (identString c) (str_of (flag_key b)) = Some f'
              \<and> f' = f \<lparr> fl_enabled := fl_enabled f', fl_updated_at := fl_updated_at f',
                         fl_updated_by := fl_updated_by f',
                         fl_update_reason := fl_update_reason f' \<rparr>)
       \<and> (\<forall>c' k'. (c', k') \<noteq> (identString c, str_of (flag_key b))
              \<longrightarrow> entry_at db' c' k' = entry_at db c' k')"
proof -
  from toggle_flag_tables [OF assms(1,3)]
  obtain f' where t: "apiKeys db' = apiKeys db" "builtins db' = builtins db"
      "featureFlags db'
         = (featureFlags db)(identString c \<mapsto> fs(str_of (flag_key b) \<mapsto> Flag f'))"
      "f' = f \<lparr> fl_enabled := fl_enabled f', fl_updated_at := fl_updated_at f',
                         fl_updated_by := fl_updated_by f',
                         fl_update_reason := fl_update_reason f' \<rparr>"
    by blast
  note u = update_one_flag [OF t(3) assms(2)]
  have "flag_at db' (identString c) (str_of (flag_key b)) = Some f'"
    using u(2) by (simp add: flag_at_def entry_at_def)
  moreover have "\<forall>c' k'. (c', k') \<noteq> (identString c, str_of (flag_key b))
              \<longrightarrow> entry_at db' c' k' = entry_at db c' k'"
    using u(3) by (simp add: entry_at_def)
  ultimately show ?thesis
    using t(1,2,4) u(1) by blast
qed

text \<open>
  A request answered with \<open>success: true\<close> for a key under which the tenant's table holds
  a flag record changes that record, and of it only \<open>enabled\<close>, \<open>updated_at\<close>,
  \<open>updated_by\<close> and \<open>update_reason\<close>; every other entry of every table, the set of
  tenants, the API-key table and the built-in objects are what they were.
\<close>

lemma toggle_record_frame:
  assumes auth: "validateApiKey e req db = Authenticated c key"
    and reply: "webhook_endpoint e req db = Reply r db'" and ok: "success r"
    and k: "flag_key (payload req) = Some k"
    and flag: "flag_at db (identString c) k = Some f"
  shows "apiKeys db' = apiKeys db \<and> builtins db' = builtins db
       \<and> dom (featureFlags db') = dom (featureFlags db)
       \<and> (\<exists>f'. flag_at db' (identString c) k = Some f'
              \<and> f' = f \<lparr> fl_enabled := fl_enabled f', fl_updated_at := fl_updated_at f',
                         fl_updated_by := fl_updated_by f',
                         fl_update_reason := fl_update_reason f' \<rparr>)
       \<and> (\<forall>c' k'. (c', k') \<noteq> (identString c, k)
              \<longrightarrow> entry_at db' c' k' = entry_at db c' k')"
proof -
  let ?b = "payload req"
  from flag have "entry_at db (identString c) k = Some (Flag f)"
    by (cases "entry_at db (identString c) k" rule: flag_of.cases) (simp_all add: flag_at_def)
  then obtain fs where fs: "featureFlags db (identString c) = Some fs" "fs k = Some (Flag f)"
    by (auto simp: entry_at_def split: option.splits)
  have sk: "str_of (flag_key ?b) = k"
    using k by simp
  have w: "pathcanary_webhook e c (logRequest e req) ?b db = Reply r db'"
    using auth reply by (simp add: webhook_endpoint_def)
  from success_is_toggle [OF w ok]
  obtain t where t: "as_target (getProp (builtins db)
                    (case featureFlags db (identString c) of Some t \<Rightarrow> t | None \<Rightarrow> Map.empty)
                    (str_of (flag_key ?b))) = Some t"
      "toggle_flag e c (logRequest e req) ?b (featureFlags db (identString c)) t db = Reply r db'"
    by blast
  from t(1) have "t = TFlag f"
    by (simp add: fs sk getProp_def)
  with t(2) have tf: "toggle_flag e c (logRequest e req) ?b (Some fs) (TFlag f) db = Reply r db'"
    by (simp add: fs)
  from toggle_flag_frame [OF tf fs(1)] fs(2) sk show ?thesis
    by simp
qed

text \<open>Every branch past the four checks echoes the flag key.\<close>

lemma reply_of_toggle_flag:
  "\<exists>r. reply_of (toggle_flag e c rid b stored flag db) = Some r
       \<and> res_flag_key r = Some (str_of (flag_key b))"
  by (simp add: toggle_flag_def Let_def)

lemma reply_of_not_found:
  "\<exists>r. reply_of (flag_not_found e c rid b db) = Some r
       \<and> res_flag_key r = Some (str_of (flag_key b))"
  by (simp add: flag_not_found_def internal_error_def Let_def split: option.splits)

subsection \<open>The log after a run of appends\<close>

lemma last_n_short: "length xs \<le> n \<Longrightarrow> last_n n xs = xs"
  by (simp add: last_n_def)



subsection \<open>The sample request against the database the server starts with\<close>

lemma example_auth:
  "validateApiKey example_env example_request initial_database
     = Authenticated (Tenant (Plain ''customer_001'')) ''test_sk_abc123def456''"
  by (simp add: validateApiKey_def example_request_def initial_database_def startsWith_def
        getProp_def objectPrototypeMembers_def stampedFields_def)

lemma example_valid: "valid_request (payload example_request)"
  by (simp add: valid_request_def example_body_def example_request_def)

lemma example_key:
  "flag_key (payload example_request) = Some ''new-checkout-flow''"
  "enabled (payload example_request) = JBool False"
  by (simp_all add: example_request_def example_body_def)

lemma example_tenant: "identString (Tenant (Plain ''customer_001'')) = ''customer_001''"
  by (simp add: identString_def objectPrototypeMembers_def stampedFields_def)

lemma example_flag:
  "flag_at initial_database (identString (Tenant (Plain ''customer_001''))) ''new-checkout-flow''
     = Some \<lparr> fl_id = ''flag_001'', fl_key = ''new-checkout-flow'', fl_enabled = True,
                 fl_environment = ''production'', fl_description = ''New checkout experience'',
                 fl_created_at = ''2025-01-15T10:00:00Z'', fl_updated_at = ''2025-01-15T10:00:00Z'',
                 fl_updated_by = None, fl_update_reason = None \<rparr>"
  by (simp add: flag_at_def entry_at_def initial_database_def example_tenant)

lemmas endpoint_defs = webhook_endpoint_def validateApiKey_def invalid_key_def
  pathcanary_webhook_def logRequest_def flag_not_found_def toggle_flag_def internal_error_def
  logAuditEvent_def unauthorized_def bad_request_def startsWith_def getProp_def
  body_enabled_def write_back_def stamp_field_def update_reason_def
  objectPrototypeMembers_def stampedFields_def identString_def identJson_def
  flag_at_def entry_at_def Let_def

lemmas example_defs = example_request_def example_body_def example_env_def
  initial_database_def

section \<open>The toggle is a set, not a flip\<close>

text \<open>
  C1. For a flag the authenticated tenant has and a target state \<open>v\<close>, two consecutive
  valid rollback requests from the same caller with that flag key and \<open>enabled == v\<close> are
  both answered with HTTP 200, \<open>success: true\<close> and \<open>new_state == v\<close>, and the second
  answer's \<open>previous_state\<close> is \<open>v\<close>, the first answer's \<open>new_state\<close>.
\<close>

theorem toggle_idempotent:
  assumes auth: "validateApiKey e1 req1 db = Authenticated c key"
    and same_caller: "authorization req2 = authorization req1"
    and flag: "flag_at db (identString c) k = Some f"
    and v1: "valid_request (payload req1)" and v2: "valid_request (payload req2)"
    and k1: "flag_key (payload req1) = Some k" and k2: "flag_key (payload req2) = Some k"
    and en1: "enabled (payload req1) = JBool v" and en2: "enabled (payload req2) = JBool v"
  shows "\<exists>r1 db1 r2 db2.
           webhook_endpoint e1 req1 db = Reply r1 db1
         \<and> webhook_endpoint e2 req2 db1 = Reply r2 db2
         \<and> status r1 = 200 \<and> success r1 \<and> new_state r1 = Some v
         \<and> status r2 = 200 \<and> success r2 \<and> new_state r2 = Some v
         \<and> previous_state r2 = Some v \<and> previous_state r2 = new_state r1"
proof -
  from toggle_step [OF auth v1 k1 en1 flag]
  obtain r1 db1 f1 where s1: "webhook_endpoint e1 req1 db = Reply r1 db1"
    "status r1 = 200" "success r1" "new_state r1 = Some v" "apiKeys db1 = apiKeys db"
    "builtins db1 = builtins db"
    "flag_at db1 (identString c) k = Some f1" "fl_enabled f1 = v"
    by blast
  have auth2: "validateApiKey e2 req2 db1 = Authenticated c key"
    by (rule validateApiKey_stable [OF auth s1(5) s1(6) same_caller])
  from toggle_step [OF auth2 v2 k2 en2 s1(7)]
  obtain r2 db2 where s2: "webhook_endpoint e2 req2 db1 = Reply r2 db2"
    "status r2 = 200" "success r2" "new_state r2 = Some v"
    "previous_state r2 = Some (fl_enabled f1)"
    by blast
  show ?thesis
    using s1(1-4) s2 s1(8) by simp
qed

text \<open>The banner's request, sent twice to the server as it starts.\<close>

theorem toggle_idempotent_witness:
  "\<exists>r1 db1 r2 db2.
       webhook_endpoint example_env example_request initial_database = Reply r1 db1
     \<and> webhook_endpoint example_env example_request db1 = Reply r2 db2
     \<and> status r1 = 200 \<and> success r1 \<and> new_state r1 = Some False
     \<and> status r2 = 200 \<and> success r2 \<and> new_state r2 = Some False
     \<and> previous_state r2 = Some False \<and> previous_state r2 = new_state r1"
  by (rule toggle_idempotent [OF example_auth refl example_flag example_valid example_valid
        example_key(1) example_key(1) example_key(2) example_key(2)])

section \<open>The validation gate\<close>

text \<open>
  C2. The claim: every authenticated request whose \<open>enabled\<close> field is not a boolean (or
  which fails another of the four checks) is answered with HTTP 400 and changes no flag
  and no audit state. The code reads \<open>enabled\<close> by destructuring the body, which finds
  an inherited \<open>enabled\<close> when the body has none, and the handler itself writes one: a
  valid request for the flag key \<open>__proto__\<close> is answered with \<open>success: true\<close> after
  \<open>enabled\<close>, \<open>updated_at\<close>, \<open>updated_by\<close> and \<open>update_reason\<close> are written onto
  \<open>Object.prototype\<close>. The banner's request without its \<open>enabled\<close> field, which the
  server as it starts answers with HTTP 400, is from then on answered with HTTP 200 and
  \<open>success: true\<close>: the flag is set to the inherited \<open>false\<close> and a \<open>FLAG_TOGGLED\<close> entry
  is written.
\<close>

theorem inherited_enabled_passes_gate:
  \<open>\<not> valid_request (example_body \<lparr> enabled := JUndefined \<rparr>)
   \<and> webhook_endpoint example_env
        (example_request \<lparr> payload := example_body \<lparr> enabled := JUndefined \<rparr> \<rparr>)
        initial_database
      = Reply (bad_request ''new-checkout-flow''
                 ''Missing or invalid required field: enabled (must be boolean)'')
          initial_database
   \<and> (\<exists>r1 db1 r2 db2.
         webhook_endpoint example_env
           (example_request \<lparr> payload := example_body \<lparr> flag_key := Some ''__proto__'' \<rparr> \<rparr>)
           initial_database = Reply r1 db1
       \<and> status r1 = 200 \<and> success r1
       \<and> map_option st_enabled (builtins db1 ''__proto__'') = Some False
       \<and> webhook_endpoint example_env
           (example_request \<lparr> payload := example_body \<lparr> enabled := JUndefined \<rparr> \<rparr>) db1
           = Reply r2 db2
       \<and> status r2 = 200 \<and> success r2
       \<and> previous_state r2 = Some True \<and> new_state r2 = Some False
       \<and> map_option fl_enabled (flag_at db1 ''customer_001'' ''new-checkout-flow'') = Some True
       \<and> map_option fl_enabled (flag_at db2 ''customer_001'' ''new-checkout-flow'') = Some False
       \<and> map (event_action \<circ> logged) (auditLog db2) = [FLAG_TOGGLED, FLAG_TOGGLED])\<close>
  by (simp add: endpoint_defs example_defs valid_request_def)

section \<open>Unknown flags\<close>

text \<open>
  What holds of a flag key the tenant does not have: when the key names no inherited
  member and no field stamped onto \<open>Object.prototype\<close>, and \<open>metadata\<close> is not \<open>null\<close>,
  the answer is HTTP 200 with \<open>success: false\<close> and an error that holds the key, one
  \<open>FLAG_NOT_FOUND\<close> entry is appended, and nothing else changes.
\<close>

lemma unknown_flag_plain:
  assumes auth: "validateApiKey e req db = Authenticated c key"
    and valid: "valid_request (payload req)"
    and k: "flag_key (payload req) = Some k"
    and absent: "entry_at db (identString c) k = None"
    and plain: "k \<notin> set objectPrototypeMembers"
      "builtins db ''__proto__'' = None \<or> k \<notin> set stampedFields"
    and md: "metadata (payload req) \<noteq> JNull"
  shows "\<exists>r db'. webhook_endpoint e req db = Reply r db'
          \<and> status r = 200 \<and> success r = False \<and> res_flag_key r = Some k
          \<and> previous_state r = Some False \<and> new_state r = Some False
          \<and> error r = Some (''Feature flag '' @ [CHR 0x27] @ k @ [CHR 0x27]
                             @ '' not found for customer '' @ identString c)
          \<and> featureFlags db' = featureFlags db \<and> apiKeys db' = apiKeys db
          \<and> builtins db' = builtins db
          \<and> auditLog db'
              = last_n 1000 (auditLog db @
                  [\<lparr> timestamp = time_logged e,
                     logged = FlagNotFoundEvent c k (str_of (incident_id (payload req)))
                                (logRequest e req) \<rparr>])"
proof -
  let ?b = "payload req"
  have env: "metadata_environment (if metadata ?b = JUndefined then JObj [] else metadata ?b)
               \<noteq> None"
    using md by (cases "metadata ?b") (auto split: option.splits)
  have own: "(case featureFlags db (identString c) of Some t \<Rightarrow> t | None \<Rightarrow> Map.empty) k = None"
    using absent by (simp add: entry_at_def split: option.splits)
  have "getProp (builtins db)
          (case featureFlags db (identString c) of Some t \<Rightarrow> t | None \<Rightarrow> Map.empty) k = Absent"
  proof (cases "builtins db ''__proto__''")
    case None
    then show ?thesis using own plain(1) by (simp add: getProp_def)
  next
    case (Some st)
    then have "k \<notin> set stampedFields" using plain(2) by simp
    then have "stamp_field st k = None" using stamp_field_names [of st k] by blast
    then show ?thesis using own plain(1) Some by (simp add: getProp_def)
  qed
  then have "pathcanary_webhook e c (logRequest e req) ?b db
          = flag_not_found e c (logRequest e req) ?b db"
    using valid k
    by (simp add: pathcanary_webhook_def valid_request_def own_enabled)
  then show ?thesis
    using auth env k
    by (auto simp: webhook_endpoint_def flag_not_found_def Let_def auditLog_logAuditEvent)
qed

text \<open>
  C3. The claim: every authenticated, valid request naming a flag key the tenant does
  not have is answered with HTTP 200 and \<open>success: false\<close>, is recorded as
  \<open>FLAG_NOT_FOUND\<close>, and changes no flag. The code at two such requests: for the key
  \<open>constructor\<close>, which the tenant does not have, the lookup finds the member every
  object inherits, and the handler answers \<open>success: true\<close> after stamping the flag
  fields onto that built-in object, stores the object in the tenant's table under the
  key and writes a \<open>FLAG_TOGGLED\<close> entry; for a key the tenant does not have and
  \<open>metadata: null\<close>, the response's read of \<open>metadata.environment\<close> throws after the
  \<open>FLAG_NOT_FOUND\<close> entry is written, and the answer is HTTP 500.
\<close>

theorem unknown_flag_inherited_key:
  "flag_at initial_database ''customer_001'' ''constructor'' = None
   \<and> (\<exists>db'. webhook_endpoint example_env
        (example_request \<lparr> payload := example_body \<lparr> flag_key := Some ''constructor'' \<rparr> \<rparr>)
        initial_database
      = Reply
          \<lparr> status = 200, success = True, res_flag_key = Some ''constructor'',
            previous_state = None, new_state = Some False, error = None,
            provider_metadata =
              Some [(''customer_id'', JStr ''customer_001''),
                    (''updated_at'', JStr ''2025-10-26T14:32:00.000Z''),
                    (''duration_ms'', JNum 1)] \<rparr>
          db'
      \<and> map (event_action \<circ> logged) (auditLog db') = [FLAG_TOGGLED]
      \<and> entry_at initial_database ''customer_001'' ''constructor'' = None
      \<and> entry_at db' ''customer_001'' ''constructor'' = Some (BuiltinRef ''constructor'')
      \<and> map_option st_enabled (builtins db' ''constructor'') = Some False)
   \<and> flag_at initial_database ''customer_001'' ''does-not-exist'' = None
   \<and> (\<exists>r db'. webhook_endpoint example_env
                  (example_request \<lparr> payload := example_body
                      \<lparr> flag_key := Some ''does-not-exist'', metadata := JNull \<rparr> \<rparr>)
                  initial_database = Reply r db'
          \<and> status r = 500
          \<and> error r = Some ''Internal server error. Please contact support.''
          \<and> map (event_action \<circ> logged) (auditLog db') = [FLAG_NOT_FOUND, WEBHOOK_ERROR])"
  by (simp add: endpoint_defs example_defs)

section \<open>The authentication gate\<close>

text \<open>
  What holds of the requests \<open>validateApiKey\<close> rejects. They are the requests with no
  header, with a header that does not start with \<open>Bearer \<close>, and with a token under which
  the API-key table's lookup finds nothing truthy: no tenant, no inherited member, no
  stamped field (but \<open>enabled\<close> stamped as \<open>false\<close>). Each is answered with HTTP 401 and
  \<open>{success: false, error}\<close>; the tables and the built-in objects stay as they are, and
  the audit log is unchanged or one \<open>AUTH_FAILED\<close> entry longer.
\<close>

lemma rejected_requests:
  "(\<exists>r db'. validateApiKey e req db = Rejected r db') \<longleftrightarrow>
     (case authorization req of
        None \<Rightarrow> True
      | Some h \<Rightarrow>
          \<not> startsWith h ''Bearer ''
          \<or> (case getProp (builtins db) (apiKeys db) (drop 7 h) of
                Own c \<Rightarrow> plain_text c = []
              | Stamped v \<Rightarrow> \<not> truthy_stampval v
              | Inherited m \<Rightarrow> False
              | Absent \<Rightarrow> True))"
  by (auto simp: validateApiKey_def invalid_key_def startsWith_def Let_def
        split: option.splits lookup.splits stampval.splits)

lemma rejected_how:
  assumes "validateApiKey e req db = Rejected r db'"
  shows "status r = 401 \<and> success r = False \<and> error r \<noteq> None
       \<and> (db' = db
            \<or> (\<exists>k. db' = logAuditEvent (time_logged e)
                            (AuthFailedEvent k (ip req) (user_agent req)) db))"
  using assms
  by (auto simp: validateApiKey_def invalid_key_def unauthorized_def Let_def
        split: option.splits if_splits lookup.splits stampval.splits)

lemma rejected_frame:
  assumes "validateApiKey e req db = Rejected r db'"
  shows "webhook_endpoint e req db = Reply r db'
       \<and> status r = 401 \<and> success r = False \<and> error r \<noteq> None
       \<and> featureFlags db' = featureFlags db \<and> apiKeys db' = apiKeys db
       \<and> builtins db' = builtins db
       \<and> (auditLog db' = auditLog db
            \<or> (\<exists>entry. event_action (logged entry) = AUTH_FAILED
                  \<and> auditLog db' = last_n 1000 (auditLog db @ [entry])))"
proof -
  from rejected_how [OF assms]
  have r: "status r = 401" "success r = False" "error r \<noteq> None"
    and how: "db' = db
            \<or> (\<exists>k. db' = logAuditEvent (time_logged e)
                            (AuthFailedEvent k (ip req) (user_agent req)) db)"
    by simp_all
  from how have tables: "featureFlags db' = featureFlags db" "apiKeys db' = apiKeys db"
      "builtins db' = builtins db"
    by auto
  from how have log: "auditLog db' = auditLog db
            \<or> (\<exists>entry. event_action (logged entry) = AUTH_FAILED
                  \<and> auditLog db' = last_n 1000 (auditLog db @ [entry]))"
  proof
    assume "db' = db"
    then show ?thesis by simp
  next
    assume "\<exists>k. db' = logAuditEvent (time_logged e)
                            (AuthFailedEvent k (ip req) (user_agent req)) db"
    then obtain k where "db' = logAuditEvent (time_logged e)
                            (AuthFailedEvent k (ip req) (user_agent req)) db" ..
    then have "event_action (logged \<lparr> timestamp = time_logged e,
                   logged = AuthFailedEvent k (ip req) (user_agent req) \<rparr>) = AUTH_FAILED
          \<and> auditLog db' = last_n 1000 (auditLog db @ [\<lparr> timestamp = time_logged e,
                   logged = AuthFailedEvent k (ip req) (user_agent req) \<rparr>])"
      by (simp add: auditLog_logAuditEvent)
    then show ?thesis by blast
  qed
  have "webhook_endpoint e req db = Reply r db'"
    using assms by (simp add: webhook_endpoint_def)
  then show ?thesis using r tables log by simp
qed

text \<open>A token that is unknown is audited under its first ten characters.\<close>

lemma unknown_key_audited:
  assumes "authorization req = Some h" and "startsWith h ''Bearer ''"
    and "getProp (builtins db) (apiKeys db) (drop 7 h) = Absent"
  shows "webhook_endpoint e req db
           = Reply (unauthorized ''Invalid API key'')
               (logAuditEvent (time_logged e)
                  (AuthFailedEvent (take 10 (drop 7 h) @ ''...'') (ip req) (user_agent req)) db)"
  using assms
  by (auto simp: webhook_endpoint_def validateApiKey_def invalid_key_def startsWith_def Let_def)

text \<open>
  C4. The claim: a request with no or a malformed \<open>Authorization\<close> header, and a request
  with an unknown token, each leave an \<open>AUTH_FAILED\<close> audit entry, and no entry holds the
  presented secret in full. The code: a request without the header is answered 401 and
  the database, audit log included, is what it was; so is one whose header is not of the
  \<open>Bearer\<close> form. An unknown token of ten characters or fewer is written to the log whole.
\<close>

theorem missing_header_not_audited:
  "webhook_endpoint e (req \<lparr> authorization := None \<rparr>) db
     = Reply (unauthorized
         ''Missing or invalid Authorization header. Expected format: Bearer YOUR_API_KEY'') db
   \<and> webhook_endpoint example_env
        (example_request \<lparr> authorization := Some ''Basic dXNlcjpwYXNz'' \<rparr>) initial_database
     = Reply (unauthorized
         ''Missing or invalid Authorization header. Expected format: Bearer YOUR_API_KEY'')
         initial_database
   \<and> webhook_endpoint example_env
        (example_request \<lparr> authorization := Some ''Bearer hunter2'' \<rparr>) initial_database
     = Reply (unauthorized ''Invalid API key'')
         (initial_database
            \<lparr> auditLog := [\<lparr> timestamp = ''2025-10-26T14:32:00.001Z'',
                             logged = AuthFailedEvent ''hunter2...'' ''127.0.0.1''
                                        (Some ''curl'') \<rparr>] \<rparr>)"
  by (simp add: endpoint_defs example_defs)

text \<open>
  C5. The claim: every request without a valid bearer token is answered with HTTP 401,
  changes no flag and leaves no \<open>FLAG_TOGGLED\<close> entry. The code at the token
  \<open>constructor\<close>, which is no key of the API-key table: the lookup finds the inherited
  member, the request passes as authenticated, and the handler runs: here it answers
  HTTP 200 and writes a \<open>FLAG_NOT_FOUND\<close> entry in the name of that built-in object, and
  with the flag key \<open>toString\<close> it goes down the toggle path, answers \<open>success: true\<close>
  and writes a \<open>FLAG_TOGGLED\<close> entry.
\<close>

theorem inherited_key_authenticates:
  "apiKeys initial_database ''constructor'' = None
   \<and> (\<exists>r db'. webhook_endpoint example_env
                  (example_request \<lparr> authorization := Some ''Bearer constructor'' \<rparr>)
                  initial_database = Reply r db'
          \<and> status r = 200
          \<and> map logged (auditLog db')
              = [FlagNotFoundEvent (Builtin ''constructor'') ''new-checkout-flow'' ''test-123''
                   ''req_1761489120000_0a1b2c3d''])
   \<and> (\<exists>r db'. webhook_endpoint example_env
               (example_request \<lparr> authorization := Some ''Bearer constructor'',
                                   payload := example_body \<lparr> flag_key := Some ''toString'' \<rparr> \<rparr>)
               initial_database = Reply r db'
          \<and> status r = 200 \<and> success r
          \<and> map (event_action \<circ> logged) (auditLog db') = [FLAG_TOGGLED]
          \<and> map_option st_enabled (builtins db' ''toString'') = Some False)"
  by (simp add: endpoint_defs example_defs)

section \<open>The flag key comes back\<close>

text \<open>
  C6. Every authenticated request that passes the four checks is answered with the
  \<open>flag_key\<close> it sent, whether the flag exists or not (and also when the handler fails
  with HTTP 500, and when the \<open>enabled\<close> that passed the check was an inherited one).
\<close>

theorem flag_key_round_trip:
  assumes auth: "validateApiKey e req db = Authenticated c key"
    and valid: "passes_checks (builtins db) (payload req)"
  shows "\<exists>r. reply_of (webhook_endpoint e req db) = Some r
             \<and> res_flag_key r = flag_key (payload req)"
proof -
  have k: "Some (str_of (flag_key (payload req))) = flag_key (payload req)"
    using valid by (simp add: passes_checks_def str_of_present)
  have "\<exists>r. reply_of (pathcanary_webhook e c (logRequest e req) (payload req) db) = Some r
             \<and> res_flag_key r = Some (str_of (flag_key (payload req)))"
    using valid reply_of_toggle_flag reply_of_not_found
    by (simp add: pathcanary_webhook_def passes_checks_def Let_def split: option.splits)
  then show ?thesis
    using auth k by (simp add: webhook_endpoint_def)
qed

text \<open>The banner's request, and the same request for a flag that does not exist.\<close>

theorem flag_key_round_trip_witness:
  "(\<exists>r. reply_of (webhook_endpoint example_env example_request initial_database) = Some r
        \<and> res_flag_key r = Some ''new-checkout-flow'')
   \<and> (\<exists>r. reply_of (webhook_endpoint example_env
                (example_request \<lparr> payload := example_body
                                     \<lparr> flag_key := Some ''does-not-exist'' \<rparr> \<rparr>)
                initial_database) = Some r
        \<and> res_flag_key r = Some ''does-not-exist'')"
proof -
  let ?req = "example_request \<lparr> payload := example_body \<lparr> flag_key := Some ''does-not-exist'' \<rparr> \<rparr>"
  have a: "validateApiKey example_env ?req initial_database
             = Authenticated (Tenant (Plain ''customer_001'')) ''test_sk_abc123def456''"
    by (rule validateApiKey_stable [OF example_auth refl refl]) (simp add: example_request_def)
  have v: "passes_checks (builtins initial_database) (payload ?req)"
    by (rule valid_passes) (simp add: valid_request_def example_body_def)
  from flag_key_round_trip [OF example_auth valid_passes [OF example_valid]]
  have "\<exists>r. reply_of (webhook_endpoint example_env example_request initial_database) = Some r
        \<and> res_flag_key r = Some ''new-checkout-flow''"
    by (simp add: example_key)
  moreover from flag_key_round_trip [OF a v]
  have "\<exists>r. reply_of (webhook_endpoint example_env ?req initial_database) = Some r
        \<and> res_flag_key r = Some ''does-not-exist''"
    by simp
  ultimately show ?thesis by blast
qed

section \<open>What a toggle leaves alone\<close>

text \<open>
  C9. The claim: a request answered with \<open>success: true\<close> changes one flag record and
  nothing else: no other flag of the tenant, no flag of another tenant, not the API-key
  table. That holds when the tenant's table has a flag record under the key (lemma
  \<open>toggle_record_frame\<close>). The code at a key the table does not have but every object
  inherits: the banner's request for the key \<open>constructor\<close> is answered with
  \<open>success: true\<close>; no flag record is there to change, the four fields are written onto
  the function \<open>Object\<close>, which every table of every tenant finds under that key, and
  the tenant's table gains an entry. The other tenant's request for the same key, which
  reports no previous state on the server as it starts, now reports the \<open>false\<close> the
  first tenant wrote. With the key \<open>__proto__\<close> the fields are written onto
  \<open>Object.prototype\<close>, and the API-key table, whose own entries are what they were, from
  then on answers the token \<open>updated_by\<close> with the tenant \<open>pathcanary\<close>.
\<close>

theorem toggle_writes_shared_object:
  "flag_at initial_database ''customer_001'' ''constructor'' = None
   \<and> (\<exists>r0 db0. webhook_endpoint example_env
          (example_request \<lparr> authorization := Some ''Bearer prod_sk_xyz789ghi012'',
                              payload := example_body \<lparr> flag_key := Some ''constructor'' \<rparr> \<rparr>)
          initial_database = Reply r0 db0
        \<and> success r0 \<and> previous_state r0 = None)
   \<and> (\<exists>r db' r2 db2. webhook_endpoint example_env
          (example_request \<lparr> payload := example_body \<lparr> flag_key := Some ''constructor'' \<rparr> \<rparr>)
          initial_database = Reply r db'
        \<and> status r = 200 \<and> success r
        \<and> flag_at db' ''customer_001'' ''constructor'' = None
        \<and> entry_at db' ''customer_001'' ''constructor'' = Some (BuiltinRef ''constructor'')
        \<and> entry_at initial_database ''customer_001'' ''constructor'' = None
        \<and> map_option st_enabled (builtins db' ''constructor'') = Some False
        \<and> webhook_endpoint example_env
            (example_request \<lparr> authorization := Some ''Bearer prod_sk_xyz789ghi012'',
                                payload := example_body \<lparr> flag_key := Some ''constructor'' \<rparr> \<rparr>)
            db' = Reply r2 db2
        \<and> success r2 \<and> previous_state r2 = Some False)
   \<and> (\<exists>r0 db0. validateApiKey example_env
          (example_request \<lparr> authorization := Some ''Bearer updated_by'' \<rparr>) initial_database
          = Rejected r0 db0
        \<and> status r0 = 401)
   \<and> (\<exists>r db'. webhook_endpoint example_env
          (example_request \<lparr> payload := example_body \<lparr> flag_key := Some ''__proto__'' \<rparr> \<rparr>)
          initial_database = Reply r db'
        \<and> status r = 200 \<and> success r
        \<and> apiKeys db' = apiKeys initial_database
        \<and> validateApiKey example_env
            (example_request \<lparr> authorization := Some ''Bearer updated_by'' \<rparr>) db'
          = Authenticated (Tenant (Plain ''pathcanary'')) ''updated_by'')"
  by (simp add: endpoint_defs example_defs)

section \<open>The audit log keeps the last thousand entries\<close>

text \<open>
  The endpoint touches the log through \<open>logAuditEvent\<close> only: the log after a request is
  the log before it with at most two entries appended.
\<close>

lemma appended_none: "\<exists>evs. length evs \<le> 2 \<and> auditLog db = auditLog (log_events evs db)"
  by (rule exI [of _ "[]"]) simp

lemma appended_one:
  assumes "auditLog d = auditLog db"
  shows "\<exists>evs. length evs \<le> 2
           \<and> auditLog (logAuditEvent t ev d) = auditLog (log_events evs db)"
  using assms by (intro exI [of _ "[(t, ev)]"]) (simp add: logAuditEvent_def Let_def)

lemma appended_two:
  "\<exists>evs. length evs \<le> 2
     \<and> auditLog (logAuditEvent t2 ev2 (logAuditEvent t ev db)) = auditLog (log_events evs db)"
  by (rule exI [of _ "[(t, ev), (t2, ev2)]"]) simp

lemma not_found_appends:
  assumes "flag_not_found e c rid b db = Reply r db'"
  shows "\<exists>evs. length evs \<le> 2 \<and> auditLog db' = auditLog (log_events evs db)"
proof (cases "metadata_environment (if metadata b = JUndefined then JObj [] else metadata b)")
  case None
  then have "db' = logAuditEvent (time_error_logged e)
                     (WebhookErrorEvent c (thrown_message e) (thrown_stack e) rid
                        (error_duration_ms e))
                     (logAuditEvent (time_logged e)
                        (FlagNotFoundEvent c (str_of (flag_key b)) (str_of (incident_id b)) rid)
                        db)"
    using assms by (simp add: flag_not_found_def internal_error_def Let_def)
  then show ?thesis by (simp only: appended_two)
next
  case (Some v)
  then have "db' = logAuditEvent (time_logged e)
                     (FlagNotFoundEvent c (str_of (flag_key b)) (str_of (incident_id b)) rid) db"
    using assms by (simp add: flag_not_found_def Let_def)
  then show ?thesis using appended_one [of db db] by simp
qed

lemma toggle_appends:
  assumes "toggle_flag e c rid b stored flag db = Reply r db'"
  shows "\<exists>evs. length evs \<le> 2 \<and> auditLog db' = auditLog (log_events evs db)"
proof -
  have "\<exists>r0 ev d. toggle_flag e c rid b stored flag db
                     = Reply r0 (logAuditEvent (time_logged e) ev d)
                   \<and> auditLog d = auditLog db"
    unfolding toggle_flag_def Let_def by (intro exI conjI) (rule refl, simp)
  with assms obtain d ev where "auditLog d = auditLog db"
      "db' = logAuditEvent (time_logged e) ev d"
    by auto
  then show ?thesis
    using appended_one [of d db "time_logged e" ev] by simp
qed

lemma handler_appends:
  assumes "pathcanary_webhook e c rid b db = Reply r db'"
  shows "\<exists>evs. length evs \<le> 2 \<and> auditLog db' = auditLog (log_events evs db)"
proof -
  from assms
  have "db' = db \<or> flag_not_found e c rid b db = Reply r db'
        \<or> (\<exists>stored flag. toggle_flag e c rid b stored flag db = Reply r db')"
    by (auto simp: pathcanary_webhook_def Let_def split: if_splits option.splits)
  then show ?thesis
    using appended_none not_found_appends toggle_appends by blast
qed

lemma endpoint_appends:
  assumes "webhook_endpoint e req db = Reply r db'"
  shows "\<exists>evs. length evs \<le> 2 \<and> auditLog db' = auditLog (log_events evs db)"
proof (cases "validateApiKey e req db")
  case (Rejected r0 db0)
  then have same: "db' = db0" using assms by (simp add: webhook_endpoint_def)
  from rejected_how [OF Rejected]
  have "db0 = db \<or> (\<exists>k. db0 = logAuditEvent (time_logged e)
                            (AuthFailedEvent k (ip req) (user_agent req)) db)"
    by simp
  then show ?thesis
    using same appended_none [of db] appended_one [of db db] by auto
next
  case (Authenticated c key)
  then show ?thesis using assms handler_appends by (simp add: webhook_endpoint_def)
qed



section \<open>Facts about the client\<close>

lemma key_present: "f \<in> fst ` set kvs \<longleftrightarrow> map_of kvs f \<noteq> None"
  by (simp add: map_of_eq_None_iff)

lemma typed_boolean_iff:
  "typed_boolean (map_of kvs f)
     \<longleftrightarrow> f \<in> fst ` set kvs \<and> is_boolean (get_field f (JObj kvs))"
proof (cases "map_of kvs f")
  case None
  then show ?thesis unfolding key_present by simp
next
  case (Some v)
  then show ?thesis unfolding key_present by (cases v) simp_all
qed

lemma typed_string_iff:
  "typed_string (map_of kvs f)
     \<longleftrightarrow> f \<in> fst ` set kvs \<and> is_string (get_field f (JObj kvs))"
proof (cases "map_of kvs f")
  case None
  then show ?thesis unfolding key_present by simp
next
  case (Some v)
  then show ?thesis unfolding key_present by (cases v) simp_all
qed

text \<open>\<open>validateResponse\<close> returns on exactly the bodies of \<open>accepted_schema\<close>.\<close>

lemma validateResponse_accepts:
  "validateResponse iom data = None \<longleftrightarrow> accepted_schema data"
proof (cases data)
  case (JObj kvs)
  show ?thesis
    unfolding JObj accepted_schema_def
    by (auto simp: validateResponse_def required_def typed_boolean_iff typed_string_iff Let_def
          split: option.splits)
qed (simp_all add: validateResponse_def accepted_schema_def required_def)

lemma validateResponse_error:
  assumes "validateResponse iom data = Some err"
  shows "err = \<lparr> err_name = ''TypeError'', err_message = iom \<rparr>
         \<or> (\<exists>reason. err = Error (''Invalid response: '' @ reason))"
  using assms
  by (auto simp: validateResponse_def Let_def split: option.splits if_splits)

lemma invalid_response_not_http:
  "Error (''Invalid response: '' @ reason) \<noteq> Error (''HTTP '' @ rest)"
  by (simp add: Error_def)

lemma type_error_not_http:
  "\<lparr> err_name = ''TypeError'', err_message = iom \<rparr> \<noteq> Error msg"
  by (simp add: Error_def)

text \<open>
  The loop from any attempt on: the attempts made are \<open>a, a + 1, ..., m\<close>, a delay is
  slept after each but the last, every attempt before the last threw, and the run ends
  with the answer of attempt \<open>m\<close> or, when all attempts up to \<open>retryAttempts\<close> threw, with
  the aggregate error.
\<close>

lemma retry_loop_run:
  "\<exists>m. calls (retry_loop cfg iom ex a le) = [a..m]
           \<and> a - 1 \<le> m \<and> m \<le> max (a - 1) (retryAttempts cfg)
           \<and> (a \<le> retryAttempts cfg \<longrightarrow> a \<le> m)
           \<and> sleeps (retry_loop cfg iom ex a le) = map delay [a..m - 1]
           \<and> (\<forall>i\<in>{a..m - 1}. isl (testToggleFlag cfg iom (ex i)))
           \<and> (case result (retry_loop cfg iom ex a le) of
                 Inr data \<Rightarrow> a \<le> m \<and> testToggleFlag cfg iom (ex m) = Inr data
               | Inl err \<Rightarrow>
                   m = max (a - 1) (retryAttempts cfg)
                   \<and> (\<forall>i\<in>{a..retryAttempts cfg}. isl (testToggleFlag cfg iom (ex i)))
                   \<and> err = Error (''Failed after '' @ show_int (retryAttempts cfg)
                                  @ '' attempts: ''
                                  @ (if retryAttempts cfg < a then last_message le
                                     else err_message
                                            (projl (testToggleFlag cfg iom
                                                      (ex (retryAttempts cfg)))))))"
proof (induction cfg iom ex a le rule: retry_loop.induct)
  case (1 cfg iom exchange attempt lastError)
  let ?N = "retryAttempts cfg"
  let ?T = "\<lambda>i. testToggleFlag cfg iom (exchange i)"
  show ?case
  proof (cases "attempt \<le> ?N")
    case False
    then show ?thesis
      by (subst (1 2 3) retry_loop.simps) (auto intro!: exI [of _ "attempt - 1"])
  next
    case le: True
    show ?thesis
    proof (cases "?T attempt")
      case (Inr data)
      then show ?thesis
        using le by (subst (1 2 3) retry_loop.simps) (auto intro!: exI [of _ attempt])
    next
      case (Inl err)
      let ?rest = "retry_loop cfg iom exchange (attempt + 1) (Some err)"
      let ?P = "\<lambda>a le m. calls (retry_loop cfg iom exchange a le) = [a..m]
           \<and> a - 1 \<le> m \<and> m \<le> max (a - 1) (retryAttempts cfg)
           \<and> (a \<le> retryAttempts cfg \<longrightarrow> a \<le> m)
           \<and> sleeps (retry_loop cfg iom exchange a le) = map delay [a..m - 1]
           \<and> (\<forall>i\<in>{a..m - 1}. isl (testToggleFlag cfg iom (exchange i)))
           \<and> (case result (retry_loop cfg iom exchange a le) of
                 Inr data \<Rightarrow> a \<le> m \<and> testToggleFlag cfg iom (exchange m) = Inr data
               | Inl err \<Rightarrow>
                   m = max (a - 1) (retryAttempts cfg)
                   \<and> (\<forall>i\<in>{a..retryAttempts cfg}. isl (testToggleFlag cfg iom (exchange i)))
                   \<and> err = Error (''Failed after '' @ show_int (retryAttempts cfg)
                                  @ '' attempts: ''
                                  @ (if retryAttempts cfg < a then last_message le
                                     else err_message
                                            (projl (testToggleFlag cfg iom
                                                      (exchange (retryAttempts cfg)))))))"
      from "1.IH" [OF le Inl] obtain m where P: "?P (attempt + 1) (Some err) m" ..
      have m: "calls ?rest = [attempt + 1..m]" "attempt \<le> m" "m \<le> max attempt ?N"
        "attempt + 1 \<le> ?N \<longrightarrow> attempt + 1 \<le> m"
        "sleeps ?rest = map delay [attempt + 1..m - 1]"
        "\<forall>i\<in>{attempt + 1..m - 1}. isl (?T i)"
        "case result ?rest of
           Inr data \<Rightarrow> attempt + 1 \<le> m \<and> ?T m = Inr data
         | Inl e \<Rightarrow> m = max attempt ?N \<and> (\<forall>i\<in>{attempt + 1..?N}. isl (?T i))
                   \<and> e = Error (''Failed after '' @ show_int ?N @ '' attempts: ''
                                  @ (if ?N < attempt + 1 then last_message (Some err)
                                     else err_message (projl (?T ?N))))"
        using P by (simp_all split: sum.splits)
      have unfold: "retry_loop cfg iom exchange attempt lastError
            = ?rest \<lparr> calls := attempt # calls ?rest,
                       sleeps := (if attempt < ?N then [delay attempt] else []) @ sleeps ?rest \<rparr>"
        using le Inl by (subst retry_loop.simps) (simp add: Let_def)
      have c: "calls (retry_loop cfg iom exchange attempt lastError) = [attempt..m]"
        using m(1,2) by (simp add: unfold upto_rec1 [of attempt m])
      have s: "sleeps (retry_loop cfg iom exchange attempt lastError)
                 = map delay [attempt..m - 1]"
      proof (cases "attempt < ?N")
        case True
        then have "attempt \<le> m - 1" using m(4) by simp
        then show ?thesis using True m(5) by (simp add: unfold upto_rec1 [of attempt "m - 1"])
      next
        case False
        then have "m = attempt" using m(2,3) le by simp
        then show ?thesis using False m(5) by (simp add: unfold)
      qed
      have t: "\<forall>i\<in>{attempt..m - 1}. isl (?T i)"
      proof
        fix i assume "i \<in> {attempt..m - 1}"
        then have "i = attempt \<or> i \<in> {attempt + 1..m - 1}" by auto
        then show "isl (?T i)" using Inl m(6) by auto
      qed
      have all: "(\<forall>i\<in>{attempt + 1..?N}. isl (?T i)) \<Longrightarrow> (\<forall>i\<in>{attempt..?N}. isl (?T i))"
      proof
        fix i assume a: "\<forall>i\<in>{attempt + 1..?N}. isl (?T i)" and "i \<in> {attempt..?N}"
        then have "i = attempt \<or> i \<in> {attempt + 1..?N}" by auto
        then show "isl (?T i)" using Inl a by auto
      qed
      have r: "case result (retry_loop cfg iom exchange attempt lastError) of
                 Inr data \<Rightarrow> attempt \<le> m \<and> ?T m = Inr data
               | Inl e \<Rightarrow>
                   m = max (attempt - 1) ?N \<and> (\<forall>i\<in>{attempt..?N}. isl (?T i))
                   \<and> e = Error (''Failed after '' @ show_int ?N @ '' attempts: ''
                                  @ (if ?N < attempt then last_message lastError
                                     else err_message (projl (?T ?N))))"
      proof (cases "result ?rest")
        case (Inr data)
        then show ?thesis using m(7) by (simp add: unfold)
      next
        case e: (Inl e)
        have "?N < attempt + 1 \<Longrightarrow> ?N = attempt" using le by simp
        then have "(if ?N < attempt + 1 then last_message (Some err)
                    else err_message (projl (?T ?N))) = err_message (projl (?T ?N))"
          using Inl by auto
        then show ?thesis using m(7) e le all by (simp add: unfold)
      qed
      show ?thesis
        using c s t r m(2,3) le by (intro exI [of _ m]) simp
    qed
  qed
qed

lemma example_attempts:
  "testToggleFlag example_config iom (example_exchange 1)
     = Inl (Error ''Request timeout after 30000ms'')"
  "testToggleFlag example_config iom (example_exchange 2)
     = Inl (Error ''Request timeout after 30000ms'')"
  "testToggleFlag example_config iom (example_exchange 3) = Inr example_response"
  "testToggleFlag example_config iom (example_refusal 1) = Inr example_not_found_body"
  by (simp_all add: testToggleFlag_def attempt_toggle_def example_exchange_def
        example_refusal_def example_config_def resolved_def constructor_def show_int_def
        show_nat.simps ok_def validateResponse_def example_response_def
        example_not_found_body_def required_def Error_def)

section \<open>The client's retry policy\<close>

text \<open>
  C7. \<open>testToggleFlagWithRetry\<close> makes the attempts \<open>1, ..., m\<close> with \<open>m\<close> at most
  \<open>retryAttempts\<close> (3 when the caller gives none). Every attempt before the last threw: an
  attempt that returns a response, \<open>success: false\<close> or not, ends the run with that
  response. Between consecutive attempts it sleeps \<open>min(1000 * 2^(attempt - 1), 10000)\<close>
  milliseconds. When every attempt threw, it throws an error whose message names
  \<open>retryAttempts\<close> and the message of the last attempt's error.
\<close>

theorem retry_policy:
  "retryAttempts (constructor (pc \<lparr> given_retryAttempts := None \<rparr>)) = 3
   \<and> (\<exists>m. calls (testToggleFlagWithRetry cfg iom ex) = [1..m]
         \<and> 0 \<le> m \<and> m \<le> max 0 (retryAttempts cfg)
         \<and> sleeps (testToggleFlagWithRetry cfg iom ex)
             = map (\<lambda>attempt. min (1000 * 2 ^ nat (attempt - 1)) 10000) [1..m - 1]
         \<and> (\<forall>i\<in>{1..m - 1}. isl (testToggleFlag cfg iom (ex i)))
         \<and> (case result (testToggleFlagWithRetry cfg iom ex) of
               Inr data \<Rightarrow> 1 \<le> m \<and> testToggleFlag cfg iom (ex m) = Inr data
             | Inl err \<Rightarrow>
                 m = max 0 (retryAttempts cfg)
                 \<and> (\<forall>i\<in>{1..retryAttempts cfg}. isl (testToggleFlag cfg iom (ex i)))
                 \<and> err = Error (''Failed after '' @ show_int (retryAttempts cfg)
                                @ '' attempts: ''
                                @ (if retryAttempts cfg < 1 then ''undefined''
                                   else err_message
                                          (projl (testToggleFlag cfg iom
                                                    (ex (retryAttempts cfg))))))))"
proof -
  have d: "delay = (\<lambda>attempt. min (1000 * 2 ^ nat (attempt - 1)) 10000)"
    by (rule ext) (simp add: delay_def)
  have c: "retryAttempts (constructor (pc \<lparr> given_retryAttempts := None \<rparr>)) = 3"
    by (simp add: constructor_def)
  from retry_loop_run [of cfg iom ex 1 None]
  obtain m where P: "calls (retry_loop cfg iom ex 1 None) = [1..m]
           \<and> 1 - 1 \<le> m \<and> m \<le> max (1 - 1) (retryAttempts cfg)
           \<and> (1 \<le> retryAttempts cfg \<longrightarrow> 1 \<le> m)
           \<and> sleeps (retry_loop cfg iom ex 1 None) = map delay [1..m - 1]
           \<and> (\<forall>i\<in>{1..m - 1}. isl (testToggleFlag cfg iom (ex i)))
           \<and> (case result (retry_loop cfg iom ex 1 None) of
                 Inr data \<Rightarrow> 1 \<le> m \<and> testToggleFlag cfg iom (ex m) = Inr data
               | Inl err \<Rightarrow>
                   m = max (1 - 1) (retryAttempts cfg)
                   \<and> (\<forall>i\<in>{1..retryAttempts cfg}. isl (testToggleFlag cfg iom (ex i)))
                   \<and> err = Error (''Failed after '' @ show_int (retryAttempts cfg)
                                  @ '' attempts: ''
                                  @ (if retryAttempts cfg < 1 then last_message None
                                     else err_message
                                            (projl (testToggleFlag cfg iom
                                                      (ex (retryAttempts cfg)))))))" ..
  show ?thesis
    unfolding testToggleFlagWithRetry_def
    by (rule conjI [OF c], rule exI [of _ m]) (use P in \<open>simp add: d split: sum.splits\<close>)
qed

text \<open>
  The default client: two timeouts and then an answer give that answer after sleeping
  1000 and 2000 milliseconds; a provider that reports the flag as not found is asked once.
\<close>

theorem retry_policy_witness:
  "result (testToggleFlagWithRetry example_config [] example_exchange) = Inr example_response
   \<and> calls (testToggleFlagWithRetry example_config [] example_exchange) = [1, 2, 3]
   \<and> sleeps (testToggleFlagWithRetry example_config [] example_exchange) = [1000, 2000]
   \<and> result (testToggleFlagWithRetry example_config [] example_refusal)
       = Inr example_not_found_body
   \<and> calls (testToggleFlagWithRetry example_config [] example_refusal) = [1]
   \<and> sleeps (testToggleFlagWithRetry example_config [] example_refusal) = []"
proof -
  let ?run = "testToggleFlagWithRetry example_config [] example_exchange"
  let ?once = "testToggleFlagWithRetry example_config [] example_refusal"
  have n: "retryAttempts example_config = 3"
    by (simp add: example_config_def constructor_def)
  have r: "result ?run = Inr example_response"
    by (simp add: testToggleFlagWithRetry_def retry_loop.simps n example_attempts Let_def)
  from retry_policy [of _ example_config "[]" example_exchange]
  obtain m where m: "calls ?run = [1..m]" "m \<le> 3"
      "sleeps ?run = map (\<lambda>attempt. min (1000 * 2 ^ nat (attempt - 1)) 10000) [1..m - 1]"
      "1 \<le> m" "testToggleFlag example_config [] (example_exchange m) = Inr example_response"
    using r n by auto
  have "m = 1 \<or> m = 2 \<or> m = 3" using m(2,4) by auto
  then have "m = 3" using m(5) example_attempts(1,2) [of "[]"] by auto
  then have first: "calls ?run = [1, 2, 3]" "sleeps ?run = [1000, 2000]"
    using m(1,3) by (simp_all add: upto_rec1)
  have once: "result ?once = Inr example_not_found_body" "calls ?once = [1]" "sleeps ?once = []"
    by (simp_all add: testToggleFlagWithRetry_def retry_loop.simps n example_attempts Let_def)
  show ?thesis using r first once by simp
qed

section \<open>The client's check of the response\<close>

text \<open>
  C8, as the code has it. A response outside 2xx makes \<open>testToggleFlag\<close> throw the
  transport error \<open>HTTP <status>: <body>\<close>. On a 2xx response whose body parses, it returns
  the body when the four required fields are there with their types (boolean, string,
  boolean, boolean) and the \<open>error\<close> field, if truthy, is a string; on any other body it
  throws a \<open>TypeError\<close> (the body is no object) or an error \<open>Invalid response: ...\<close>,
  neither of which is a transport error, and neither of which is a returned response.
\<close>

theorem response_schema_checked:
  "(\<not> ok r \<longrightarrow>
      testToggleFlag cfg iom (FetchResolved r)
        = Inl (Error (''HTTP '' @ show_nat (http_status r) @ '': '' @ body_text r)))
   \<and> (ok r \<and> body_json r = Inr data \<and> accepted_schema data \<longrightarrow>
        testToggleFlag cfg iom (FetchResolved r) = Inr data)
   \<and> (ok r \<and> body_json r = Inr data \<and> \<not> accepted_schema data \<longrightarrow>
        (\<exists>err. testToggleFlag cfg iom (FetchResolved r) = Inl err
           \<and> (err = \<lparr> err_name = ''TypeError'', err_message = iom \<rparr>
                \<or> (\<exists>reason. err = Error (''Invalid response: '' @ reason)))
           \<and> (\<forall>st text. err \<noteq> Error (''HTTP '' @ show_nat st @ '': '' @ text))))"
proof (intro conjI impI)
  assume "\<not> ok r"
  then show "testToggleFlag cfg iom (FetchResolved r)
        = Inl (Error (''HTTP '' @ show_nat (http_status r) @ '': '' @ body_text r))"
    by (simp add: testToggleFlag_def attempt_toggle_def Error_def)
next
  assume a: "ok r \<and> body_json r = Inr data \<and> accepted_schema data"
  then have "validateResponse iom data = None"
    by (simp add: validateResponse_accepts)
  then show "testToggleFlag cfg iom (FetchResolved r) = Inr data"
    using a by (simp add: testToggleFlag_def attempt_toggle_def)
next
  assume a: "ok r \<and> body_json r = Inr data \<and> \<not> accepted_schema data"
  then obtain err where err: "validateResponse iom data = Some err"
    using validateResponse_accepts [of iom data] by (cases "validateResponse iom data") auto
  from validateResponse_error [OF err]
  have shape: "err = \<lparr> err_name = ''TypeError'', err_message = iom \<rparr>
               \<or> (\<exists>reason. err = Error (''Invalid response: '' @ reason))" .
  then have name: "err_name err \<noteq> ''AbortError''"
    by (auto simp: Error_def)
  have "testToggleFlag cfg iom (FetchResolved r) = Inl err"
    using a err name by (simp add: testToggleFlag_def attempt_toggle_def)
  moreover have "\<forall>st text. err \<noteq> Error (''HTTP '' @ show_nat st @ '': '' @ text)"
    using shape invalid_response_not_http type_error_not_http by (auto simp: Error_def)
  ultimately show "\<exists>err. testToggleFlag cfg iom (FetchResolved r) = Inl err
           \<and> (err = \<lparr> err_name = ''TypeError'', err_message = iom \<rparr>
                \<or> (\<exists>reason. err = Error (''Invalid response: '' @ reason)))
           \<and> (\<forall>st text. err \<noteq> Error (''HTTP '' @ show_nat st @ '': '' @ text))"
    using shape by blast
qed

text \<open>
  A 404, a well-formed report that the flag was not found, and a body without its
  required fields.
\<close>

theorem response_schema_checked_witness:
  "testToggleFlag example_config [] (resolved 404 example_not_found_body)
     = Inl (Error ''HTTP 404: '')
   \<and> testToggleFlag example_config [] (resolved 200 example_not_found_body)
     = Inr example_not_found_body
   \<and> (\<exists>reason. testToggleFlag example_config [] (resolved 200 example_malformed_body)
         = Inl (Error (''Invalid response: '' @ reason)))"
proof -
  have acc: "accepted_schema example_not_found_body"
    by (simp add: accepted_schema_def example_not_found_body_def)
  have rej: "\<not> accepted_schema example_malformed_body"
    by (simp add: accepted_schema_def example_malformed_body_def)
  have no_type_error:
    "testToggleFlag example_config [] (resolved 200 example_malformed_body)
       \<noteq> Inl \<lparr> err_name = ''TypeError'', err_message = [] \<rparr>"
    by (simp add: testToggleFlag_def attempt_toggle_def resolved_def ok_def validateResponse_def
          example_malformed_body_def required_def Error_def)
  note t1 = response_schema_checked
    [of "\<lparr> http_status = 404, body_text = [], body_json = Inr example_not_found_body \<rparr>"
        example_config "[]" example_not_found_body]
  note t2 = response_schema_checked
    [of "\<lparr> http_status = 200, body_text = [], body_json = Inr example_not_found_body \<rparr>"
        example_config "[]" example_not_found_body]
  note t3 = response_schema_checked
    [of "\<lparr> http_status = 200, body_text = [], body_json = Inr example_malformed_body \<rparr>"
        example_config "[]" example_malformed_body]
  have a: "testToggleFlag example_config [] (resolved 404 example_not_found_body)
     = Inl (Error ''HTTP 404: '')"
    using t1 by (simp add: ok_def resolved_def show_nat.simps)
  have b: "testToggleFlag example_config [] (resolved 200 example_not_found_body)
     = Inr example_not_found_body"
    using t2 acc by (simp add: ok_def resolved_def)
  have c: "\<exists>reason. testToggleFlag example_config [] (resolved 200 example_malformed_body)
         = Inl (Error (''Invalid response: '' @ reason))"
    using t3 rej no_type_error by (auto simp: ok_def resolved_def)
  show ?thesis using a b c by blast
qed

text \<open>
  The claim as the specification words it asks that an \<open>error\<close> field that is present be
  a string. A well-formed body whose \<open>error\<close> is the number 0 is returned all the same.
\<close>

theorem falsy_error_accepted:
  "\<not> claimed_schema example_bad_body
   \<and> testToggleFlag example_config [] (resolved 200 example_bad_body) = Inr example_bad_body"
  by (simp add: claimed_schema_def example_bad_body_def testToggleFlag_def attempt_toggle_def
        resolved_def ok_def validateResponse_def required_def)

end
